theory Spec2Isabelle
  imports Complex_Main "HOL-Library.Sublist"
begin

section \<open>The spreadsheet ingestion of the upload modal and the upload page\<close>

text \<open>
  This theory embeds the workbook normalisation of
  \<^verbatim>\<open>src/components/upload-modal.tsx\<close> (\<^verbatim>\<open>parseExcelFile\<close>, \<^verbatim>\<open>parseTransactionsSheet\<close>,
  \<^verbatim>\<open>parseEMISheet\<close>, \<^verbatim>\<open>parseSavingsSheet\<close>, \<^verbatim>\<open>handleFileUpload\<close>) and the transaction
  parser of \<^verbatim>\<open>src/components/upload-page.tsx\<close> (\<^verbatim>\<open>parseExcelFile\<close>).
\<close>

subsection \<open>JavaScript strings\<close>

text \<open>
  A JavaScript string is a sequence of UTF-16 code units, here natural numbers.
  \<open>str\<close> turns an ASCII literal into its code units; the rupee sign of the amount
  pattern is the single code unit U+20B9.
\<close>

type_synonym jsstring = "nat list"

definition str :: "string \<Rightarrow> jsstring" where
  "str s = map of_char s"

definition rupee :: nat where
  "rupee = 8377"

text \<open>
  The lower-case form of a code unit of ASCII: the letters A to Z are mapped to a to z.
  \<^verbatim>\<open>toLowerCase\<close> itself is defined below, with the host.
\<close>

definition lowerUnit :: "nat \<Rightarrow> nat" where
  "lowerUnit c = (if 65 \<le> c \<and> c \<le> 90 then c + 32 else c)"

definition isAscii :: "jsstring \<Rightarrow> bool" where
  "isAscii s \<longleftrightarrow> list_all (\<lambda>c. c < 128) s"

text \<open>
  \<^verbatim>\<open>s.includes(t)\<close>: \<open>t\<close> occurs in \<open>s\<close> as a contiguous run. (The name has a
  suffix since \<open>includes\<close> is a keyword of Isabelle.)
\<close>

fun includes_str :: "jsstring \<Rightarrow> jsstring \<Rightarrow> bool" where
  "includes_str [] t = (t = [])"
| "includes_str (c # s) t = (prefix t (c # s) \<or> includes_str s t)"

text \<open>
  The characters of the class \<^verbatim>\<open>\s\<close> of a regular expression, which are also the
  characters \<^verbatim>\<open>parseFloat\<close> skips at the start of its argument.
\<close>

definition isWhiteSpace :: "nat \<Rightarrow> bool" where
  "isWhiteSpace c \<longleftrightarrow>
     (9 \<le> c \<and> c \<le> 13) \<or> c = 32 \<or> c = 160 \<or> c = 5760 \<or> (8192 \<le> c \<and> c \<le> 8202) \<or>
     c = 8232 \<or> c = 8233 \<or> c = 8239 \<or> c = 8287 \<or> c = 12288 \<or> c = 65279"

definition isDigit :: "nat \<Rightarrow> bool" where
  "isDigit c \<longleftrightarrow> 48 \<le> c \<and> c \<le> 57"

text \<open>Decimal rendering of a natural number, as \<^verbatim>\<open>String(n)\<close> and a template give it.\<close>

fun showNat :: "nat \<Rightarrow> jsstring" where
  "showNat n = (if n < 10 then [48 + n] else showNat (n div 10) @ [48 + n mod 10])"

declare showNat.simps [simp del]

text \<open>\<^verbatim>\<open>s.padStart(2, '0')\<close>\<close>

definition padStart2 :: "jsstring \<Rightarrow> jsstring" where
  "padStart2 s = replicate (2 - length s) 48 @ s"

subsection \<open>JavaScript numbers\<close>

text \<open>
  A number is NaN, an infinity or a finite value. Finite values are exact rationals:
  the rounding of a decimal text to the nearest double is not modelled, nor is the
  negative zero. The code only compares numbers with zero, tests them for NaN and takes
  absolute values.
\<close>

datatype number = NaN | Fin rat | PosInf | NegInf

definition isNaN :: "number \<Rightarrow> bool" where
  "isNaN x \<longleftrightarrow> x = NaN"

text \<open>\<^verbatim>\<open>x < 0\<close>\<close>

fun ltZero :: "number \<Rightarrow> bool" where
  "ltZero NaN = False"
| "ltZero (Fin r) = (r < 0)"
| "ltZero PosInf = False"
| "ltZero NegInf = True"

text \<open>\<^verbatim>\<open>x >= 0\<close>, false for NaN.\<close>

fun geZero :: "number \<Rightarrow> bool" where
  "geZero NaN = False"
| "geZero (Fin r) = (0 \<le> r)"
| "geZero PosInf = True"
| "geZero NegInf = False"

text \<open>\<^verbatim>\<open>Math.abs\<close>\<close>

fun Math_abs :: "number \<Rightarrow> number" where
  "Math_abs NaN = NaN"
| "Math_abs (Fin r) = Fin \<bar>r\<bar>"
| "Math_abs PosInf = PosInf"
| "Math_abs NegInf = PosInf"

subsection \<open>\<^verbatim>\<open>parseFloat\<close> on text\<close>

text \<open>
  \<^verbatim>\<open>parseFloat\<close> skips leading white space and reads the longest prefix that is a
  decimal literal: an optional sign, then \<^verbatim>\<open>Infinity\<close> or digits with an optional
  fraction and an optional exponent. With no such prefix the result is NaN.
\<close>

fun digitsValue :: "jsstring \<Rightarrow> nat \<Rightarrow> nat" where
  "digitsValue [] acc = acc"
| "digitsValue (c # cs) acc = digitsValue cs (10 * acc + (c - 48))"

definition pow10 :: "int \<Rightarrow> rat" where
  "pow10 e = (if 0 \<le> e then 10 ^ nat e else 1 / 10 ^ nat (- e))"

text \<open>The exponent part: \<^verbatim>\<open>e\<close> or \<^verbatim>\<open>E\<close>, an optional sign, at least one digit.\<close>

definition exponentPart :: "jsstring \<Rightarrow> int" where
  "exponentPart s =
     (case s of
        [] \<Rightarrow> 0
      | c # r \<Rightarrow>
          if c = 101 \<or> c = 69 then
            (let neg = (case r of [] \<Rightarrow> False | d # _ \<Rightarrow> d = 45);
                 r' = (case r of [] \<Rightarrow> [] | d # t \<Rightarrow> if d = 45 \<or> d = 43 then t else r);
                 ds = takeWhile isDigit r'
             in if ds = [] then 0
                else if neg then - int (digitsValue ds 0) else int (digitsValue ds 0))
          else 0)"

definition unsignedLiteral :: "jsstring \<Rightarrow> rat option" where
  "unsignedLiteral s =
     (let ip = takeWhile isDigit s;
          r1 = dropWhile isDigit s;
          hasDot = (case r1 of [] \<Rightarrow> False | c # _ \<Rightarrow> c = 46);
          fp = (if hasDot then takeWhile isDigit (tl r1) else []);
          r2 = (if hasDot then dropWhile isDigit (tl r1) else r1)
      in if ip = [] \<and> fp = [] then None
         else Some (of_nat (digitsValue (ip @ fp) 0) *
                    pow10 (exponentPart r2 - int (length fp))))"

definition parseFloat :: "jsstring \<Rightarrow> number" where
  "parseFloat s =
     (let t = dropWhile isWhiteSpace s;
          neg = (case t of [] \<Rightarrow> False | c # _ \<Rightarrow> c = 45);
          u = (case t of [] \<Rightarrow> [] | c # r \<Rightarrow> if c = 45 \<or> c = 43 then r else t)
      in if prefix (str ''Infinity'') u then (if neg then NegInf else PosInf)
         else (case unsignedLiteral u of
                 None \<Rightarrow> NaN
               | Some v \<Rightarrow> Fin (if neg then - v else v)))"

subsection \<open>Cell values, rows and workbooks\<close>

text \<open>
  \<^verbatim>\<open>XLSX.utils.sheet_to_json\<close> gives one object per data row, with the header labels as
  keys and the cells as values: text, a number or a boolean. A key that is absent reads
  as \<^verbatim>\<open>undefined\<close>. A row is the list of its entries in column order; the library
  gives a repeated header a numbered name, so the keys of a row are distinct.
  (\<^verbatim>\<open>Object.keys\<close> lists keys that are array indices first; such a key contains no
  letter and is never selected by the searches below, so the column order decides
  every search.)
\<close>

datatype jsval = Str jsstring | Num rat | Bool bool | Undefined

type_synonym row = "(jsstring \<times> jsval) list"

type_synonym workbook = "(jsstring \<times> row list) list"

definition Object_keys :: "row \<Rightarrow> jsstring list" where
  "Object_keys row = map fst row"

text \<open>\<^verbatim>\<open>row[key]\<close>\<close>

definition get :: "row \<Rightarrow> jsstring \<Rightarrow> jsval" where
  "get row key = (case map_of row key of None \<Rightarrow> Undefined | Some v \<Rightarrow> v)"

text \<open>The truth value of a cell in a condition.\<close>

fun truthy :: "jsval \<Rightarrow> bool" where
  "truthy (Str s) = (s \<noteq> [])"
| "truthy (Num n) = (n \<noteq> 0)"
| "truthy (Bool b) = b"
| "truthy Undefined = False"

text \<open>
  \<^verbatim>\<open>String(v)\<close>, here \<open>toString v\<close>. The decimal rendering of a number cell is kept
  symbolic (\<open>NumText\<close>): it is only stored in a record or handed to \<^verbatim>\<open>parseFloat\<close>.
\<close>

datatype jstext = Text jsstring | NumText rat

fun toString :: "jsval \<Rightarrow> jstext" where
  "toString (Str s) = Text s"
| "toString (Num n) = NumText n"
| "toString (Bool b) = Text (if b then str ''true'' else str ''false'')"
| "toString Undefined = Text (str ''undefined'')"

subsection \<open>The functions of the host\<close>

text \<open>
  Three functions the code calls are not part of the repository and are parameters of
  the model:
  \<^item> \<open>parse_date_code\<close> is \<^verbatim>\<open>XLSX.SSF.parse_date_code\<close> of the spreadsheet library: the
    year, month and day of a date serial, or \<open>None\<close> when the library returns
    \<^verbatim>\<open>null\<close>;
  \<^item> \<open>toISODate v\<close> is \<^verbatim>\<open>new Date(v)\<close> of the JavaScript engine followed, when the date
    is valid, by \<^verbatim>\<open>toISOString().split('T')[0]\<close>; \<open>None\<close> when the date is invalid;
  \<^item> \<open>lowerCaseUnicode s\<close> is \<^verbatim>\<open>s.toLowerCase()\<close> of the JavaScript engine for a string
    \<open>s\<close> that has a character outside ASCII, where the result follows the Unicode
    tables of the engine (the capital I with a dot, U+0130, becomes the two code units
    of i and a combining dot, the Kelvin sign becomes k).
\<close>

record host =
  parse_date_code :: "rat \<Rightarrow> (nat \<times> nat \<times> nat) option"
  toISODate :: "jsval \<Rightarrow> jsstring option"
  lowerCaseUnicode :: "jsstring \<Rightarrow> jsstring"

text \<open>
  \<^verbatim>\<open>s.toLowerCase()\<close>: in a string of ASCII characters the letters A to Z become a to z
  and nothing else changes; any other string is left to the host.
\<close>

definition toLowerCase :: "host \<Rightarrow> jsstring \<Rightarrow> jsstring" where
  "toLowerCase h s = (if isAscii s then map lowerUnit s else lowerCaseUnicode h s)"

text \<open>
  \<^verbatim>\<open>Object.keys(row).find(key => key.toLowerCase().includes(t1) || ... )\<close>: the first
  key, in key order, whose lower-case form contains one of the tokens.
\<close>

definition findKey :: "host \<Rightarrow> jsstring list \<Rightarrow> row \<Rightarrow> jsstring option" where
  "findKey h tokens row =
     find (\<lambda>key. list_ex (\<lambda>t. includes_str (toLowerCase h key) t) tokens) (Object_keys row)"

text \<open>
  \<^verbatim>\<open>parseFloat(String(v).replace(/[R,\s]/g, ''))\<close>, the amount pattern of every
  parser (\<^verbatim>\<open>R\<close> stands for the rupee sign). The rendering of a number has none of
  the removed characters and \<^verbatim>\<open>parseFloat\<close> reads it back as the number it renders.
\<close>

fun replaceAmountChars :: "jstext \<Rightarrow> jstext" where
  "replaceAmountChars (Text s) =
     Text (filter (\<lambda>c. \<not> (c = rupee \<or> c = 44 \<or> isWhiteSpace c)) s)"
| "replaceAmountChars (NumText n) = NumText n"

fun parseFloatText :: "jstext \<Rightarrow> number" where
  "parseFloatText (Text s) = parseFloat s"
| "parseFloatText (NumText n) = Fin n"

definition parseAmount :: "jsval \<Rightarrow> number" where
  "parseAmount v = parseFloatText (replaceAmountChars (toString v))"

subsection \<open>Dates\<close>

text \<open>Reading \<^verbatim>\<open>date.y\<close> of \<^verbatim>\<open>null\<close> throws.\<close>

datatype js_exception = TypeError

text \<open>
  The date block, written out in each of the four parsers:
  \<^verbatim>\<open>
  let dateStr = row[dateKey];
  if (typeof dateStr === 'number') {
    const date = XLSX.SSF.parse_date_code(dateStr);
    dateStr = `${date.y}-${String(date.m).padStart(2, '0')}-${String(date.d).padStart(2, '0')}`;
  } else if (dateStr) {
    const parsedDate = new Date(dateStr);
    if (!isNaN(parsedDate.getTime())) dateStr = parsedDate.toISOString().split('T')[0];
  }
  \<close>
\<close>

definition decodeDate :: "host \<Rightarrow> jsval \<Rightarrow> js_exception + jsval" where
  "decodeDate h dateStr =
     (case dateStr of
        Num n \<Rightarrow>
          (case parse_date_code h n of
             None \<Rightarrow> Inl TypeError
           | Some (y, m, d) \<Rightarrow>
               Inr (Str (showNat y @ str ''-'' @ padStart2 (showNat m) @ str ''-'' @
                         padStart2 (showNat d))))
      | _ \<Rightarrow>
          if truthy dateStr then
            (case toISODate h dateStr of
               Some isoDate \<Rightarrow> Inr (Str isoDate)
             | None \<Rightarrow> Inr dateStr)
          else Inr dateStr)"

subsection \<open>The row loops\<close>

text \<open>
  The body of a row loop pushes a record, or continues with the next row, silently or
  after a \<^verbatim>\<open>console.warn\<close>; an exception leaves the loop. The console receives
  \<^verbatim>\<open>Row ${i + 2} has invalid amount, skipping\<close> or
  \<^verbatim>\<open>Row ${i + 2} is missing required fields, skipping\<close>, recorded as the kind of the
  warning and the number \<open>i + 2\<close>.
\<close>

datatype warning = InvalidAmount | MissingRequiredFields

datatype 'a step = Push 'a | Continue | Warn warning

type_synonym console = "(warning \<times> nat) list"

fun forRows ::
  "(row \<Rightarrow> js_exception + 'a step) \<Rightarrow> row list \<Rightarrow> nat \<Rightarrow> 'a list \<times> console \<Rightarrow>
     js_exception + 'a list \<times> console" where
  "forRows body [] i (out, con) = Inr (out, con)"
| "forRows body (row # rows) i (out, con) =
     (case body row of
        Inl e \<Rightarrow> Inl e
      | Inr (Push r) \<Rightarrow> forRows body rows (i + 1) (out @ [r], con)
      | Inr Continue \<Rightarrow> forRows body rows (i + 1) (out, con)
      | Inr (Warn w) \<Rightarrow> forRows body rows (i + 1) (out, con @ [(w, i + 2)]))"

subsection \<open>The upload modal: transactions\<close>

text \<open>
  The fields of the three record types carry a prefix, since two of the source's
  interfaces share field names. \<open>t_type\<close> is the field \<^verbatim>\<open>type\<close>; a \<open>t_source\<close> or
  \<open>e_totalAmount\<close> of \<open>None\<close> is \<^verbatim>\<open>undefined\<close>. \<open>t_date\<close> holds what the date block
  leaves in \<^verbatim>\<open>dateStr\<close>, which is the cell itself when it was not decoded.
\<close>

record ParsedTransaction =
  t_date :: jsval
  t_description :: jstext
  t_category :: jstext
  t_amount :: number
  t_type :: jstext
  t_source :: "jstext option"

text \<open>
  The body of the loop of \<^verbatim>\<open>parseTransactionsSheet\<close>. The set \<^verbatim>\<open>missingFields\<close> is
  written and never read, and is left out. The condition \<^verbatim>\<open>typeKey && row[typeKey]\<close>
  holds when a type header is found and its cell is truthy.
\<close>

definition transactionStep :: "host \<Rightarrow> row \<Rightarrow> js_exception + ParsedTransaction step" where
  "transactionStep h row =
     (let dateKey = findKey h [str ''date''] row;
          descKey = findKey h [str ''description'', str ''details'', str ''particulars'',
                             str ''narration''] row;
          categoryKey = findKey h [str ''category''] row;
          amountKey = findKey h [str ''amount'', str ''debit'', str ''credit''] row;
          typeKey = findKey h [str ''type''] row;
          sourceKey = findKey h [str ''source'', str ''account''] row
      in (case dateKey of None \<Rightarrow> Inr Continue | Some dk \<Rightarrow>
         (case descKey of None \<Rightarrow> Inr Continue | Some sk \<Rightarrow>
         (case amountKey of None \<Rightarrow> Inr Continue | Some ak \<Rightarrow>
         (case decodeDate h (get row dk) of Inl e \<Rightarrow> Inl e | Inr dateStr \<Rightarrow>
           (let amount = parseAmount (get row ak)
            in if isNaN amount then Inr (Warn InvalidAmount)
               else
                 (let transactionType =
                        (case typeKey of
                           Some tk \<Rightarrow>
                             if truthy (get row tk) then toString (get row tk)
                             else if ltZero amount then Text (str ''Expense'')
                             else Text (str ''Income'')
                         | None \<Rightarrow>
                             if ltZero amount then Text (str ''Expense'')
                             else Text (str ''Income''))
                  in Inr (Push \<lparr>
                       t_date = dateStr,
                       t_description = toString (get row sk),
                       t_category = (case categoryKey of
                                       Some ck \<Rightarrow> toString (get row ck)
                                     | None \<Rightarrow> Text (str ''Uncategorized'')),
                       t_amount = Math_abs amount,
                       t_type = transactionType,
                       t_source = (case sourceKey of
                                     Some k \<Rightarrow> Some (toString (get row k))
                                   | None \<Rightarrow> None) \<rparr>))))))))"

text \<open>
  \<^verbatim>\<open>parseTransactionsSheet\<close> returns the array \<^verbatim>\<open>transactions\<close>; its second argument
  is not used by its body. What it writes to the console is a separate function here.
\<close>

definition parseTransactionsSheet ::
  "host \<Rightarrow> row list \<Rightarrow> jsstring list \<Rightarrow> js_exception + ParsedTransaction list" where
  "parseTransactionsSheet h jsonData availableColumns =
     (case forRows (transactionStep h) jsonData 0 ([], []) of
        Inl e \<Rightarrow> Inl e
      | Inr (transactions, con) \<Rightarrow> Inr transactions)"

definition parseTransactionsSheet_console ::
  "host \<Rightarrow> row list \<Rightarrow> jsstring list \<Rightarrow> js_exception + console" where
  "parseTransactionsSheet_console h jsonData availableColumns =
     (case forRows (transactionStep h) jsonData 0 ([], []) of
        Inl e \<Rightarrow> Inl e
      | Inr (transactions, con) \<Rightarrow> Inr con)"

subsection \<open>The upload modal: instalments\<close>

record ParsedEMI =
  e_name :: jstext
  e_amount :: number
  e_dueDate :: jsval
  e_totalAmount :: "number option"
  e_paid :: number

definition emiStep :: "host \<Rightarrow> row \<Rightarrow> js_exception + ParsedEMI step" where
  "emiStep h row =
     (let nameKey = findKey h [str ''name'', str ''loan'', str ''emi''] row;
          amountKey = findKey h [str ''amount'', str ''emi''] row;
          dueDateKey = findKey h [str ''due'', str ''date'', str ''end''] row;
          totalKey = findKey h [str ''total''] row;
          paidKey = findKey h [str ''paid''] row
      in (case nameKey of None \<Rightarrow> Inr Continue | Some nk \<Rightarrow>
         (case amountKey of None \<Rightarrow> Inr Continue | Some ak \<Rightarrow>
         (case dueDateKey of None \<Rightarrow> Inr Continue | Some dk \<Rightarrow>
         (case decodeDate h (get row dk) of Inl e \<Rightarrow> Inl e | Inr dateStr \<Rightarrow>
           (let amount = parseAmount (get row ak)
            in if isNaN amount then Inr Continue
               else Inr (Push \<lparr>
                      e_name = toString (get row nk),
                      e_amount = amount,
                      e_dueDate = dateStr,
                      e_totalAmount = (case totalKey of
                                         Some k \<Rightarrow> Some (parseAmount (get row k))
                                       | None \<Rightarrow> None),
                      e_paid = (case paidKey of
                                  Some k \<Rightarrow> parseAmount (get row k)
                                | None \<Rightarrow> Fin 0) \<rparr>)))))))"

definition parseEMISheet :: "host \<Rightarrow> row list \<Rightarrow> js_exception + ParsedEMI list" where
  "parseEMISheet h jsonData =
     (case forRows (emiStep h) jsonData 0 ([], []) of
        Inl e \<Rightarrow> Inl e
      | Inr (emis, con) \<Rightarrow> Inr emis)"

subsection \<open>The upload modal: savings goals\<close>

record ParsedSavingsGoal =
  g_name :: jstext
  g_targetAmount :: number
  g_currentAmount :: number
  g_deadline :: jsval

definition savingsStep :: "host \<Rightarrow> row \<Rightarrow> js_exception + ParsedSavingsGoal step" where
  "savingsStep h row =
     (let nameKey = findKey h [str ''name'', str ''goal''] row;
          targetKey = findKey h [str ''target'', str ''goal''] row;
          currentKey = findKey h [str ''current'', str ''saved''] row;
          deadlineKey = findKey h [str ''deadline'', str ''date'', str ''target date''] row
      in (case nameKey of None \<Rightarrow> Inr Continue | Some nk \<Rightarrow>
         (case targetKey of None \<Rightarrow> Inr Continue | Some tk \<Rightarrow>
         (case deadlineKey of None \<Rightarrow> Inr Continue | Some dk \<Rightarrow>
         (case decodeDate h (get row dk) of Inl e \<Rightarrow> Inl e | Inr dateStr \<Rightarrow>
           (let target = parseAmount (get row tk);
                current = (case currentKey of
                             Some k \<Rightarrow> parseAmount (get row k)
                           | None \<Rightarrow> Fin 0)
            in if isNaN target then Inr Continue
               else Inr (Push \<lparr>
                      g_name = toString (get row nk),
                      g_targetAmount = target,
                      g_currentAmount = current,
                      g_deadline = dateStr \<rparr>)))))))"

definition parseSavingsSheet :: "host \<Rightarrow> row list \<Rightarrow> js_exception + ParsedSavingsGoal list" where
  "parseSavingsSheet h jsonData =
     (case forRows (savingsStep h) jsonData 0 ([], []) of
        Inl e \<Rightarrow> Inl e
      | Inr (goals, con) \<Rightarrow> Inr goals)"

subsection \<open>The upload modal: the workbook\<close>

text \<open>
  The branch taken for a sheet in \<^verbatim>\<open>parseExcelFile\<close> depends on the lower-case sheet
  name alone:
  \<^verbatim>\<open>
  if (sheetType.includes('emi') || sheetType.includes('loan')) ...
  else if (sheetType.includes('saving') || sheetType.includes('goal')) ...
  else ...
  \<close>
\<close>

datatype SheetRole = Installments | SavingsGoals | Transactions

definition sheetRole :: "host \<Rightarrow> jsstring \<Rightarrow> SheetRole" where
  "sheetRole h sheetName =
     (let sheetType = toLowerCase h sheetName
      in if includes_str sheetType (str ''emi'') \<or> includes_str sheetType (str ''loan'')
         then Installments
         else if includes_str sheetType (str ''saving'') \<or> includes_str sheetType (str ''goal'')
         then SavingsGoals
         else Transactions)"

record ParsedData =
  transactions :: "ParsedTransaction list"
  emis :: "ParsedEMI list"
  savingsGoals :: "ParsedSavingsGoal list"

text \<open>
  \<^verbatim>\<open>workbook.SheetNames.forEach(...)\<close> on the result object. A sheet without rows
  returns at once. The instalment and savings branches assign to their field, the
  transactions branch pushes onto it.
\<close>

fun forEachSheet :: "host \<Rightarrow> workbook \<Rightarrow> ParsedData \<Rightarrow> js_exception + ParsedData" where
  "forEachSheet h [] result = Inr result"
| "forEachSheet h ((sheetName, jsonData) # sheets) result =
     (case jsonData of
        [] \<Rightarrow> forEachSheet h sheets result
      | firstRow # _ \<Rightarrow>
          (case sheetRole h sheetName of
             Installments \<Rightarrow>
               (case parseEMISheet h jsonData of
                  Inl e \<Rightarrow> Inl e
                | Inr es \<Rightarrow> forEachSheet h sheets (result\<lparr>emis := es\<rparr>))
           | SavingsGoals \<Rightarrow>
               (case parseSavingsSheet h jsonData of
                  Inl e \<Rightarrow> Inl e
                | Inr gs \<Rightarrow> forEachSheet h sheets (result\<lparr>savingsGoals := gs\<rparr>))
           | Transactions \<Rightarrow>
               (case parseTransactionsSheet h jsonData (Object_keys firstRow) of
                  Inl e \<Rightarrow> Inl e
                | Inr ts \<Rightarrow>
                    forEachSheet h sheets (result\<lparr>transactions := transactions result @ ts\<rparr>))))"

text \<open>
  How an upload fails:
  \<^item> \<open>FailedToParse\<close>: \<^verbatim>\<open>Failed to parse Excel file: ...\<close>, an exception while parsing;
  \<^item> \<open>NoValidData\<close>: \<^verbatim>\<open>No valid data found in file. Please check the format.\<close>;
  \<^item> \<open>ExcelFileEmpty\<close>: \<^verbatim>\<open>Excel file is empty\<close> (upload page);
  \<^item> \<open>NoValidTransactions\<close>:
    \<^verbatim>\<open>No valid transactions found in file. Please check the format.\<close> (upload page).
\<close>

datatype failure = FailedToParse js_exception | NoValidData | ExcelFileEmpty | NoValidTransactions

text \<open>\<^verbatim>\<open>parseExcelFile\<close> of the modal, from the decoded workbook on.\<close>

definition parseExcelFile :: "host \<Rightarrow> workbook \<Rightarrow> failure + ParsedData" where
  "parseExcelFile h workbook =
     (case forEachSheet h workbook \<lparr>transactions = [], emis = [], savingsGoals = []\<rparr> of
        Inl e \<Rightarrow> Inl (FailedToParse e)
      | Inr result \<Rightarrow> Inr result)"

text \<open>
  \<^verbatim>\<open>handleFileUpload\<close> up to the calls of the storage API: \<open>Inl f\<close> is the \<^verbatim>\<open>catch\<close>
  branch, which shows the message of \<open>f\<close> and stores nothing; \<open>Inr data\<close> is the data
  handed to the API.
\<close>

definition handleFileUpload :: "host \<Rightarrow> workbook \<Rightarrow> failure + ParsedData" where
  "handleFileUpload h workbook =
     (case parseExcelFile h workbook of
        Inl f \<Rightarrow> Inl f
      | Inr data \<Rightarrow>
          if length (transactions data) = 0 \<and> length (emis data) = 0 \<and>
             length (savingsGoals data) = 0
          then Inl NoValidData
          else Inr data)"

subsection \<open>The upload page\<close>

text \<open>The body of the loop of \<^verbatim>\<open>parseExcelFile\<close> in \<^verbatim>\<open>upload-page.tsx\<close>.\<close>

definition pageStep :: "host \<Rightarrow> row \<Rightarrow> js_exception + ParsedTransaction step" where
  "pageStep h row =
     (let dateKey = findKey h [str ''date''] row;
          descKey = findKey h [str ''description'', str ''details'', str ''particulars''] row;
          categoryKey = findKey h [str ''category''] row;
          amountKey = findKey h [str ''amount''] row;
          typeKey = findKey h [str ''type''] row;
          sourceKey = findKey h [str ''source''] row
      in (case dateKey of None \<Rightarrow> Inr (Warn MissingRequiredFields) | Some dk \<Rightarrow>
         (case descKey of None \<Rightarrow> Inr (Warn MissingRequiredFields) | Some sk \<Rightarrow>
         (case amountKey of None \<Rightarrow> Inr (Warn MissingRequiredFields) | Some ak \<Rightarrow>
         (case typeKey of None \<Rightarrow> Inr (Warn MissingRequiredFields) | Some tk \<Rightarrow>
         (case decodeDate h (get row dk) of Inl e \<Rightarrow> Inl e | Inr dateStr \<Rightarrow>
           (let amount = parseAmount (get row ak)
            in if isNaN amount then Inr (Warn InvalidAmount)
               else Inr (Push \<lparr>
                      t_date = dateStr,
                      t_description = toString (get row sk),
                      t_category = (case categoryKey of
                                      Some ck \<Rightarrow> toString (get row ck)
                                    | None \<Rightarrow> Text (str ''Uncategorized'')),
                      t_amount = Math_abs amount,
                      t_type = toString (get row tk),
                      t_source = (case sourceKey of
                                    Some k \<Rightarrow> Some (toString (get row k))
                                  | None \<Rightarrow> None) \<rparr>))))))))"

text \<open>The array \<^verbatim>\<open>transactions\<close> when the loop of the page is done.\<close>

definition pageTransactions :: "host \<Rightarrow> row list \<Rightarrow> js_exception + ParsedTransaction list" where
  "pageTransactions h jsonData =
     (case forRows (pageStep h) jsonData 0 ([], []) of
        Inl e \<Rightarrow> Inl e
      | Inr (txs, con) \<Rightarrow> Inr txs)"

text \<open>
  \<^verbatim>\<open>parseExcelFile\<close> of the page, from the rows of the first sheet on: it rejects a
  sheet without rows and an empty array of transactions.
\<close>

definition page_parseExcelFile :: "host \<Rightarrow> row list \<Rightarrow> failure + ParsedTransaction list" where
  "page_parseExcelFile h jsonData =
     (if length jsonData = 0 then Inl ExcelFileEmpty
      else (case pageTransactions h jsonData of
              Inl e \<Rightarrow> Inl (FailedToParse e)
            | Inr txs \<Rightarrow>
                if length txs = 0 then Inl NoValidTransactions
                else Inr txs))"

subsection \<open>A host for the examples\<close>

text \<open>
  Modelled from the spec: the functions of the spreadsheet library and of the
  JavaScript engine are not under \<^verbatim>\<open>src/\<close>. The specification has a numeric date
  converted ``via the workbook's date-serial epoch into a year/month/day triple'' and a
  text date ``parsed with a general calendar-date parser''. \<open>exampleHost\<close> fixes both
  for the examples: serials count days in the 1900 date system of spreadsheets (serial 1
  is 1900-01-01, serial 60 the day 1900-02-29 that never was; the time of day is
  dropped; serials below 0 or above 2958465 give \<^verbatim>\<open>null\<close>), and a text of the form
  \<^verbatim>\<open>YYYY-MM-DD\<close> with a month from 01 to 12 and a day from 01 to 28 is its own ISO date.
  Other texts are not parsed by \<open>exampleHost\<close>, and in a string with a character outside
  ASCII it puts only the letters A to Z in lower case; the examples use neither.
\<close>

definition civil_from_days :: "int \<Rightarrow> nat \<times> nat \<times> nat" where
  "civil_from_days z0 =
     (let z = z0 + 719468;
          era = z div 146097;
          doe = z - era * 146097;
          yoe = (doe - doe div 1460 + doe div 36524 - doe div 146096) div 365;
          doy = doe - (365 * yoe + yoe div 4 - yoe div 100);
          mp = (5 * doy + 2) div 153;
          d = doy - (153 * mp + 2) div 5 + 1;
          m = (if mp < 10 then mp + 3 else mp - 9);
          y = yoe + era * 400 + (if m \<le> 2 then 1 else 0)
      in (nat y, nat m, nat d))"

definition serial1900 :: "rat \<Rightarrow> (nat \<times> nat \<times> nat) option" where
  "serial1900 v =
     (if v < 0 \<or> 2958465 < v then None
      else (let date = \<lfloor>v\<rfloor>
            in if date = 60 then Some (1900, 2, 29)
               else if date = 0 then Some (1900, 1, 0)
               else Some (civil_from_days ((if 60 < date then date - 1 else date) - 25568))))"

fun isoDateText :: "jsstring \<Rightarrow> bool" where
  "isoDateText [y1, y2, y3, y4, h1, m1, m2, h2, d1, d2] =
     (isDigit y1 \<and> isDigit y2 \<and> isDigit y3 \<and> isDigit y4 \<and> h1 = 45 \<and> isDigit m1 \<and>
      isDigit m2 \<and> h2 = 45 \<and> isDigit d1 \<and> isDigit d2 \<and>
      1 \<le> digitsValue [m1, m2] 0 \<and> digitsValue [m1, m2] 0 \<le> 12 \<and>
      1 \<le> digitsValue [d1, d2] 0 \<and> digitsValue [d1, d2] 0 \<le> 28)"
| "isoDateText s = False"

definition isoDateOf :: "jsval \<Rightarrow> jsstring option" where
  "isoDateOf v = (case v of Str s \<Rightarrow> if isoDateText s then Some s else None | _ \<Rightarrow> None)"

definition exampleHost :: host where
  "exampleHost =
     \<lparr> parse_date_code = serial1900, toISODate = isoDateOf, lowerCaseUnicode = map lowerUnit \<rparr>"

subsection \<open>Example rows\<close>

text \<open>A row with the three columns Date, Description and Amount.\<close>

definition txRow :: "rat \<Rightarrow> jsstring \<Rightarrow> jsstring \<Rightarrow> row" where
  "txRow serial desc amt =
     [(str ''Date'', Num serial), (str ''Description'', Str desc), (str ''Amount'', Str amt)]"

text \<open>The row of the specification's example; its amount starts with the rupee sign.\<close>

definition rentRow :: row where
  "rentRow = txRow 45000 (str ''Rent'') (rupee # str '' 15,000'')"

text \<open>An expense, and a row whose amount is the text N/A.\<close>

definition foodRow :: row where
  "foodRow = txRow 45001 (str ''Groceries'') (str ''-250.50'')"

definition naRow :: row where
  "naRow = txRow 45002 (str ''Refund'') (str ''N/A'')"

text \<open>A sheet of ten rows whose fourth row has the amount N/A, and the sheet without that row.\<close>

definition tenRows :: "row list" where
  "tenRows = [rentRow, foodRow, foodRow, naRow, rentRow, foodRow, rentRow, foodRow, foodRow, rentRow]"

definition nineRows :: "row list" where
  "nineRows = [rentRow, foodRow, foodRow, rentRow, foodRow, rentRow, foodRow, foodRow, rentRow]"

definition rentRecord :: ParsedTransaction where
  "rentRecord = \<lparr> t_date = Str (str ''2023-03-15''), t_description = Text (str ''Rent''),
                  t_category = Text (str ''Uncategorized''), t_amount = Fin 15000,
                  t_type = Text (str ''Income''), t_source = None \<rparr>"

definition foodRecord :: ParsedTransaction where
  "foodRecord = \<lparr> t_date = Str (str ''2023-03-16''), t_description = Text (str ''Groceries''),
                  t_category = Text (str ''Uncategorized''), t_amount = Fin (501 / 2),
                  t_type = Text (str ''Expense''), t_source = None \<rparr>"

text \<open>A row with a fourth column, Type.\<close>

definition txRowT :: "rat \<Rightarrow> jsstring \<Rightarrow> jsstring \<Rightarrow> jsval \<Rightarrow> row" where
  "txRowT serial desc amt ty = txRow serial desc amt @ [(str ''Type'', ty)]"

definition typedRow :: row where
  "typedRow = txRowT 45000 (str ''Rent'') (str ''-500'') (Str (str ''expense''))"

text \<open>The Type cell holds the number 0.\<close>

definition zeroTypeRow :: row where
  "zeroTypeRow = txRowT 45000 (str ''Rent'') (str ''-500'') (Num 0)"

definition typedRecord :: ParsedTransaction where
  "typedRecord = \<lparr> t_date = Str (str ''2023-03-15''), t_description = Text (str ''Rent''),
                   t_category = Text (str ''Uncategorized''), t_amount = Fin 500,
                   t_type = Text (str ''expense''), t_source = None \<rparr>"

text \<open>Instalment rows, and a workbook with two instalment sheets of one row each.\<close>

definition emiRow :: "jsstring \<Rightarrow> jsstring \<Rightarrow> rat \<Rightarrow> row" where
  "emiRow name amt due =
     [(str ''Name'', Str name), (str ''Amount'', Str amt), (str ''Due Date'', Num due)]"

definition carRecord :: ParsedEMI where
  "carRecord = \<lparr> e_name = Text (str ''Car Loan''), e_amount = Fin 12000,
                 e_dueDate = Str (str ''2023-03-15''), e_totalAmount = None, e_paid = Fin 0 \<rparr>"

definition homeRecord :: ParsedEMI where
  "homeRecord = \<lparr> e_name = Text (str ''Home Loan''), e_amount = Fin 30000,
                  e_dueDate = Str (str ''2023-03-16''), e_totalAmount = None, e_paid = Fin 0 \<rparr>"

definition twoLoanSheets :: workbook where
  "twoLoanSheets =
     [(str ''EMI 2024'', [emiRow (str ''Car Loan'') (str ''12000'') 45000]),
      (str ''EMI 2025'', [emiRow (str ''Home Loan'') (str ''30000'') 45001])]"

text \<open>
  The number of records the normaliser of a sheet's role gives for the sheet, for
  stating that a sheet yields none.
\<close>

definition sheetRecordCount :: "host \<Rightarrow> jsstring \<times> row list \<Rightarrow> js_exception + nat" where
  "sheetRecordCount h sheet =
     (case sheetRole h (fst sheet) of
        Installments \<Rightarrow>
          (case parseEMISheet h (snd sheet) of Inl e \<Rightarrow> Inl e | Inr es \<Rightarrow> Inr (length es))
      | SavingsGoals \<Rightarrow>
          (case parseSavingsSheet h (snd sheet) of Inl e \<Rightarrow> Inl e | Inr gs \<Rightarrow> Inr (length gs))
      | Transactions \<Rightarrow>
          (case parseTransactionsSheet h (snd sheet) [] of
             Inl e \<Rightarrow> Inl e
           | Inr ts \<Rightarrow> Inr (length ts)))"

text \<open>
  A name contains a token, case-insensitively: the token occurs in the lower-case form
  of the name.
\<close>

definition containsCI :: "host \<Rightarrow> jsstring \<Rightarrow> jsstring \<Rightarrow> bool" where
  "containsCI h name token \<longleftrightarrow> (\<exists>pre post. toLowerCase h name = pre @ token @ post)"

text \<open>A savings row with the columns Name, Target and Deadline.\<close>

definition savingsRow :: "jsstring \<Rightarrow> jsstring \<Rightarrow> rat \<Rightarrow> row" where
  "savingsRow name target due =
     [(str ''Name'', Str name), (str ''Target'', Str target), (str ''Deadline'', Num due)]"

definition tripRecord :: ParsedSavingsGoal where
  "tripRecord = \<lparr> g_name = Text (str ''Trip''), g_targetAmount = Fin 30000,
                  g_currentAmount = Fin 0, g_deadline = Str (str ''2023-03-15'') \<rparr>"

text \<open>
  A header that the amount search of the transactions parser accepts:
  \<^verbatim>\<open>key.toLowerCase().includes('amount') || key.toLowerCase().includes('debit') ||
  key.toLowerCase().includes('credit')\<close>.
\<close>

definition isAmountHeader :: "host \<Rightarrow> jsstring \<Rightarrow> bool" where
  "isAmountHeader h key \<longleftrightarrow>
     includes_str (toLowerCase h key) (str ''amount'') \<or>
     includes_str (toLowerCase h key) (str ''debit'') \<or>
     includes_str (toLowerCase h key) (str ''credit'')"

text \<open>Rows whose Credit column stands before the Amount column.\<close>

definition creditAmountRow :: row where
  "creditAmountRow = [(str ''Credit'', Str (str ''200'')), (str ''Amount'', Str (str ''100''))]"

definition creditFirstRow :: row where
  "creditFirstRow =
     [(str ''Date'', Num 45000), (str ''Description'', Str (str ''Rent'')),
      (str ''Credit'', Str (str ''200'')), (str ''Amount'', Str (str ''100''))]"

text \<open>Savings rows with a single Goal column and a Deadline.\<close>

definition goalRow :: "jsstring \<Rightarrow> row" where
  "goalRow cell = [(str ''Goal'', Str cell), (str ''Deadline'', Num 45000)]"

text \<open>
  For comparing the two transaction parsers: the record a loop body pushes, if any, and
  the records of a finished loop.
\<close>

definition pushed :: "js_exception + 'a step \<Rightarrow> js_exception + 'a option" where
  "pushed s = (case s of Inl e \<Rightarrow> Inl e | Inr (Push r) \<Rightarrow> Inr (Some r) | Inr _ \<Rightarrow> Inr None)"

definition records :: "js_exception + 'a list \<times> console \<Rightarrow> js_exception + 'a list" where
  "records r = (case r of Inl e \<Rightarrow> Inl e | Inr (out, con) \<Rightarrow> Inr out)"

text \<open>
  The rows on which the two parsers read the same cells: no header contains one of the
  tokens that only the modal searches for (``narration'', ``debit'', ``credit'',
  ``account''), and a type header is found whose cell is truthy.
\<close>

definition sameReading :: "host \<Rightarrow> row \<Rightarrow> bool" where
  "sameReading h row \<longleftrightarrow>
     list_all (\<lambda>key. \<not> list_ex (\<lambda>t. includes_str (toLowerCase h key) t)
                        [str ''narration'', str ''debit'', str ''credit'', str ''account''])
       (Object_keys row) \<and>
     (case findKey h [str ''type''] row of None \<Rightarrow> False | Some tk \<Rightarrow> truthy (get row tk))"

section \<open>Properties\<close>

subsection \<open>The row loop\<close>

text \<open>
  The accumulators of the loop only grow: a run from given accumulators is the run from
  empty ones, appended to them. The row numbers on the console move with the index the
  loop starts from.
\<close>

lemma forRows_acc:
  "forRows body rows i (out, con) =
     (case forRows body rows i ([], []) of
        Inl e \<Rightarrow> Inl e
      | Inr (out', con') \<Rightarrow> Inr (out @ out', con @ con'))"
proof (induction rows arbitrary: i out con)
  case Nil
  show ?case by simp
next
  case (Cons row rows)
  note IH = Cons.IH
  show ?case
  proof (cases "body row")
    case (Inl e)
    then show ?thesis by simp
  next
    case (Inr s)
    show ?thesis
    proof (cases s)
      case (Push r)
      have l: "forRows body (row # rows) i (out, con) = forRows body rows (i + 1) (out @ [r], con)"
        using Inr Push by simp
      have r: "forRows body (row # rows) i ([], []) = forRows body rows (i + 1) ([r], [])"
        using Inr Push by simp
      show ?thesis
        unfolding l r
        by (subst IH [of "i + 1" "out @ [r]" con], subst IH [of "i + 1" "[r]" "[]"])
           (simp split: sum.splits prod.splits)
    next
      case Continue
      have l: "forRows body (row # rows) i (out, con) = forRows body rows (i + 1) (out, con)"
        using Inr Continue by simp
      have r: "forRows body (row # rows) i ([], []) = forRows body rows (i + 1) ([], [])"
        using Inr Continue by simp
      show ?thesis
        unfolding l r by (rule IH)
    next
      case (Warn w)
      have l: "forRows body (row # rows) i (out, con) =
                 forRows body rows (i + 1) (out, con @ [(w, i + 2)])"
        using Inr Warn by simp
      have r: "forRows body (row # rows) i ([], []) = forRows body rows (i + 1) ([], [(w, i + 2)])"
        using Inr Warn by simp
      show ?thesis
        unfolding l r
        by (subst IH [of "i + 1" out "con @ [(w, i + 2)]"], subst IH [of "i + 1" "[]" "[(w, i + 2)]"])
           (simp split: sum.splits prod.splits)
    qed
  qed
qed

lemma forRows_append:
  "forRows body (xs @ ys) i acc =
     (case forRows body xs i acc of
        Inl e \<Rightarrow> Inl e
      | Inr acc' \<Rightarrow> forRows body ys (i + length xs) acc')"
proof (induction xs arbitrary: i acc)
  case Nil
  show ?case by (cases acc) simp
next
  case (Cons x xs)
  obtain out con where acc: "acc = (out, con)" by (cases acc)
  show ?case
    unfolding acc
    by (simp add: Cons.IH split: sum.splits step.splits)
qed

lemma forRows_shift:
  "forRows body rows (i + k) ([], []) =
     (case forRows body rows i ([], []) of
        Inl e \<Rightarrow> Inl e
      | Inr (out, con) \<Rightarrow> Inr (out, map (\<lambda>(w, n). (w, n + k)) con))"
proof (induction rows arbitrary: i)
  case Nil
  show ?case by simp
next
  case (Cons row rows)
  have IH: "forRows body rows (Suc (i + k)) ([], []) =
     (case forRows body rows (Suc i) ([], []) of
        Inl e \<Rightarrow> Inl e
      | Inr (out, con) \<Rightarrow> Inr (out, map (\<lambda>(w, n). (w, n + k)) con))"
    using Cons.IH [of "Suc i"] by simp
  show ?case
  proof (cases "body row")
    case (Inl e)
    then show ?thesis by simp
  next
    case (Inr s)
    show ?thesis
    proof (cases s)
      case (Push r)
      show ?thesis
        using Inr Push
        apply simp
        apply (subst forRows_acc [of body rows "Suc (i + k)" "[r]" "[]"])
        apply (subst forRows_acc [of body rows "Suc i" "[r]" "[]"])
        apply (simp add: IH split: sum.splits prod.splits)
        done
    next
      case Continue
      show ?thesis
        using Inr Continue by (simp add: IH)
    next
      case (Warn w)
      show ?thesis
        using Inr Warn
        apply simp
        apply (subst forRows_acc [of body rows "Suc (i + k)" "[]" "[(w, Suc (Suc (i + k)))]"])
        apply (subst forRows_acc [of body rows "Suc i" "[]" "[(w, Suc (Suc i))]"])
        apply (simp add: IH split: sum.splits prod.splits)
        done
    qed
  qed
qed

subsection \<open>Evaluating the example rows\<close>

lemmas keyEval = findKey_def Object_keys_def str_def toLowerCase_def isAscii_def lowerUnit_def

lemma txRow_keys:
  "findKey h [str ''date''] (txRow n d a) = Some (str ''Date'')"
  "findKey h [str ''description'', str ''details'', str ''particulars'', str ''narration'']
     (txRow n d a) = Some (str ''Description'')"
  "findKey h [str ''category''] (txRow n d a) = None"
  "findKey h [str ''amount'', str ''debit'', str ''credit''] (txRow n d a) = Some (str ''Amount'')"
  "findKey h [str ''type''] (txRow n d a) = None"
  "findKey h [str ''source'', str ''account''] (txRow n d a) = None"
  by (simp_all add: txRow_def keyEval)

lemma txRow_get:
  "get (txRow n d a) (str ''Date'') = Num n"
  "get (txRow n d a) (str ''Description'') = Str d"
  "get (txRow n d a) (str ''Amount'') = Str a"
  by (simp_all add: txRow_def get_def str_def)

lemma showNat_date: "showNat 2023 = str ''2023''" "showNat 3 = str ''3''" "showNat 15 = str ''15''"
  by (simp_all add: showNat.simps str_def)

lemma decodeDate_45000:
  "parse_date_code h 45000 = Some (2023, 3, 15) \<Longrightarrow>
     decodeDate h (Num 45000) = Inr (Str (str ''2023-03-15''))"
  by (simp add: decodeDate_def showNat_date padStart2_def) (simp add: str_def)

lemma parseAmount_rent: "parseAmount (Str (rupee # str '' 15,000'')) = Fin 15000"
  by (simp add: parseAmount_def rupee_def str_def isWhiteSpace_def parseFloat_def
      unsignedLiteral_def exponentPart_def isDigit_def pow10_def Let_def)

lemma serial1900_45000: "serial1900 45000 = Some (2023, 3, 15)"
  by code_simp

subsection \<open>A row with an invalid amount\<close>

lemma showNat_16: "showNat 16 = str ''16''" "showNat 17 = str ''17''"
  by (simp_all add: showNat.simps str_def)

lemma serial1900_45001: "serial1900 45001 = Some (2023, 3, 16)"
  by code_simp

lemma serial1900_45002: "serial1900 45002 = Some (2023, 3, 17)"
  by code_simp

lemmas amountEval = parseAmount_def rupee_def str_def isWhiteSpace_def parseFloat_def
  unsignedLiteral_def exponentPart_def isDigit_def pow10_def Let_def

lemma parseAmount_food: "parseAmount (Str (str ''-250.50'')) = Fin (- (501 / 2))"
  by (simp add: amountEval)

lemma parseAmount_na: "parseAmount (Str (str ''N/A'')) = NaN"
  by (simp add: amountEval)

lemma step_rentRow: "transactionStep exampleHost rentRow = Inr (Push rentRecord)"
  unfolding rentRow_def transactionStep_def rentRecord_def
  by (simp add: txRow_keys txRow_get decodeDate_45000 exampleHost_def serial1900_45000 isNaN_def
      parseAmount_rent)

lemma step_foodRow: "transactionStep exampleHost foodRow = Inr (Push foodRecord)"
  unfolding foodRow_def transactionStep_def foodRecord_def
  by (simp add: txRow_keys txRow_get decodeDate_def exampleHost_def serial1900_45001 isNaN_def
      parseAmount_food showNat_date showNat_16 padStart2_def)
     (simp add: str_def)

lemma decodeDate_naRow: "decodeDate exampleHost (Num 45002) = Inr (Str (str ''2023-03-17''))"
  by (simp add: decodeDate_def exampleHost_def serial1900_45002 showNat_date padStart2_def
      showNat_16)
     (simp add: str_def)

lemma forRows_transactions_nil:
  "parseTransactionsSheet h [] cols = Inr []" "parseTransactionsSheet_console h [] cols = Inr []"
  by (simp_all add: parseTransactionsSheet_def parseTransactionsSheet_console_def)

text \<open>
  C1, as amended: in a sheet on which parsing does not throw, a row whose amount header
  is found but whose amount does not decode is skipped, and the rows before and after it
  keep their records, in order. The value returned holds the transactions only. When
  the row also has its date and description headers the skip is written to the console,
  as a warning that names the number \<open>i + 2\<close> of the row at index \<open>i\<close> (from 0);
  otherwise nothing is written.
\<close>

theorem invalid_amount_row_skipped:
  assumes "findKey h [str ''amount'', str ''debit'', str ''credit''] bad = Some ak"
    and "parseAmount (get bad ak) = NaN"
    and "transactionStep h bad = Inr s"
    and "parseTransactionsSheet h pre cols = Inr a"
    and "parseTransactionsSheet_console h pre cols = Inr cp"
    and "parseTransactionsSheet h post cols = Inr b"
    and "parseTransactionsSheet_console h post cols = Inr cq"
  shows "(s = Warn InvalidAmount \<or> s = Continue) \<and>
         (s = Warn InvalidAmount \<longleftrightarrow>
            findKey h [str ''date''] bad \<noteq> None \<and>
            findKey h [str ''description'', str ''details'', str ''particulars'',
                       str ''narration''] bad \<noteq> None) \<and>
         parseTransactionsSheet h (pre @ bad # post) cols = Inr (a @ b) \<and>
         parseTransactionsSheet_console h (pre @ bad # post) cols =
           Inr (cp @ (if s = Warn InvalidAmount then [(InvalidAmount, length pre + 2)] else []) @
                map (\<lambda>(w, n). (w, n + (length pre + 1))) cq)"
proof -
  have s: "(s = Warn InvalidAmount \<or> s = Continue) \<and>
         (s = Warn InvalidAmount \<longleftrightarrow>
            findKey h [str ''date''] bad \<noteq> None \<and>
            findKey h [str ''description'', str ''details'', str ''particulars'',
                       str ''narration''] bad \<noteq> None)"
  proof (cases "findKey h [str ''date''] bad")
    case None
    then have "s = Continue"
      using assms(3) by (simp add: transactionStep_def)
    then show ?thesis using None by simp
  next
    case dk: (Some dk)
    show ?thesis
    proof (cases "findKey h [str ''description'', str ''details'', str ''particulars'',
                            str ''narration''] bad")
      case None
      then have "s = Continue"
        using assms(3) dk by (simp add: transactionStep_def)
      then show ?thesis using None by simp
    next
      case sk: (Some sk)
      show ?thesis
      proof (cases "decodeDate h (get bad dk)")
        case (Inl e)
        then have False
          using assms(1,3) dk sk by (simp add: transactionStep_def)
        then show ?thesis ..
      next
        case (Inr d)
        then have "s = Warn InvalidAmount"
          using assms(1,2,3) dk sk by (simp add: transactionStep_def isNaN_def)
        then show ?thesis using dk sk by simp
      qed
    qed
  qed
  have pre: "forRows (transactionStep h) pre 0 ([], []) = Inr (a, cp)"
    using assms(4,5)
    by (auto simp: parseTransactionsSheet_def parseTransactionsSheet_console_def
        split: sum.splits prod.splits)
  have post: "forRows (transactionStep h) post 0 ([], []) = Inr (b, cq)"
    using assms(6,7)
    by (auto simp: parseTransactionsSheet_def parseTransactionsSheet_console_def
        split: sum.splits prod.splits)
  have post': "forRows (transactionStep h) post (Suc (length pre)) ([], []) =
                 Inr (b, map (\<lambda>(w, n). (w, n + (length pre + 1))) cq)"
    using forRows_shift [of "transactionStep h" post 0 "Suc (length pre)"] post by simp
  have "forRows (transactionStep h) (pre @ bad # post) 0 ([], []) =
          forRows (transactionStep h) post (Suc (length pre))
            (a, cp @ (if s = Warn InvalidAmount then [(InvalidAmount, length pre + 2)] else []))"
    using s by (auto simp: forRows_append pre assms(3))
  also have "\<dots> = Inr (a @ b,
        (cp @ (if s = Warn InvalidAmount then [(InvalidAmount, length pre + 2)] else [])) @
        map (\<lambda>(w, n). (w, n + (length pre + 1))) cq)"
    by (subst forRows_acc) (simp add: post')
  finally have "forRows (transactionStep h) (pre @ bad # post) 0 ([], []) =
      Inr (a @ b,
        (cp @ (if s = Warn InvalidAmount then [(InvalidAmount, length pre + 2)] else [])) @
        map (\<lambda>(w, n). (w, n + (length pre + 1))) cq)" .
  then have "parseTransactionsSheet h (pre @ bad # post) cols = Inr (a @ b) \<and>
         parseTransactionsSheet_console h (pre @ bad # post) cols =
           Inr (cp @ (if s = Warn InvalidAmount then [(InvalidAmount, length pre + 2)] else []) @
                map (\<lambda>(w, n). (w, n + (length pre + 1))) cq)"
    by (simp add: parseTransactionsSheet_def parseTransactionsSheet_console_def)
  with s show ?thesis by blast
qed

lemma threeRows:
  "parseTransactionsSheet exampleHost [rentRow, foodRow, foodRow] cols =
     Inr [rentRecord, foodRecord, foodRecord]"
  "parseTransactionsSheet_console exampleHost [rentRow, foodRow, foodRow] cols = Inr []"
  by (simp_all add: parseTransactionsSheet_def parseTransactionsSheet_console_def step_rentRow
      step_foodRow)

lemma sixRows:
  "parseTransactionsSheet exampleHost [rentRow, foodRow, rentRow, foodRow, foodRow, rentRow] cols =
     Inr [rentRecord, foodRecord, rentRecord, foodRecord, foodRecord, rentRecord]"
  "parseTransactionsSheet_console exampleHost
     [rentRow, foodRow, rentRow, foodRow, foodRow, rentRow] cols = Inr []"
  by (simp_all add: parseTransactionsSheet_def parseTransactionsSheet_console_def step_rentRow
      step_foodRow)

text \<open>
  The sheet of ten rows whose fourth row has the amount N/A gives nine transactions and
  one warning on the console, which names row 5.
\<close>

theorem invalid_amount_row_skipped_witness:
  "findKey exampleHost [str ''amount'', str ''debit'', str ''credit''] naRow =
     Some (str ''Amount'') \<and>
   parseAmount (get naRow (str ''Amount'')) = NaN \<and>
   transactionStep exampleHost naRow = Inr (Warn InvalidAmount) \<and>
   parseTransactionsSheet exampleHost tenRows (Object_keys rentRow) =
     Inr [rentRecord, foodRecord, foodRecord, rentRecord, foodRecord, rentRecord, foodRecord,
          foodRecord, rentRecord] \<and>
   parseTransactionsSheet_console exampleHost tenRows (Object_keys rentRow) =
     Inr [(InvalidAmount, 5)]"
proof -
  have ten: "tenRows = [rentRow, foodRow, foodRow] @ naRow #
               [rentRow, foodRow, rentRow, foodRow, foodRow, rentRow]"
    by (simp add: tenRows_def)
  have k: "findKey exampleHost [str ''amount'', str ''debit'', str ''credit''] naRow =
             Some (str ''Amount'')"
    by (simp add: naRow_def txRow_keys)
  have n: "parseAmount (get naRow (str ''Amount'')) = NaN"
    by (simp add: naRow_def txRow_get parseAmount_na)
  have st: "transactionStep exampleHost naRow = Inr (Warn InvalidAmount)"
    unfolding naRow_def transactionStep_def
    by (simp add: txRow_keys txRow_get decodeDate_naRow parseAmount_na isNaN_def)
  show ?thesis
    unfolding ten
    using k n st
      invalid_amount_row_skipped [OF k n st threeRows(1) threeRows(2) sixRows(1) sixRows(2),
        of "Object_keys rentRow"]
    by simp
qed

text \<open>
  C1 as stated fails: what is returned for the ten rows is what is returned for the
  nine rows without the skipped one, from the sheet parser and from the workbook
  parser, so the returned result records no skip.
\<close>

theorem result_records_no_skip:
  "parseTransactionsSheet exampleHost tenRows (Object_keys rentRow) =
     parseTransactionsSheet exampleHost nineRows (Object_keys rentRow) \<and>
   parseExcelFile exampleHost [(str ''Q1'', tenRows)] =
     parseExcelFile exampleHost [(str ''Q1'', nineRows)]"
proof -
  have step_naRow: "transactionStep exampleHost naRow = Inr (Warn InvalidAmount)"
    unfolding naRow_def transactionStep_def
    by (simp add: txRow_keys txRow_get decodeDate_naRow parseAmount_na isNaN_def)
  have role: "sheetRole exampleHost (str ''Q1'') = Transactions"
    by (simp add: sheetRole_def str_def toLowerCase_def isAscii_def lowerUnit_def)
  have ten: "parseTransactionsSheet exampleHost tenRows cols =
      Inr [rentRecord, foodRecord, foodRecord, rentRecord, foodRecord, rentRecord, foodRecord,
           foodRecord, rentRecord]" for cols
    by (simp add: tenRows_def parseTransactionsSheet_def step_rentRow step_foodRow step_naRow)
  have nine: "parseTransactionsSheet exampleHost nineRows cols =
      Inr [rentRecord, foodRecord, foodRecord, rentRecord, foodRecord, rentRecord, foodRecord,
           foodRecord, rentRecord]" for cols
    by (simp add: nineRows_def parseTransactionsSheet_def step_rentRow step_foodRow)
  have "parseExcelFile exampleHost [(str ''Q1'', tenRows)] =
          parseExcelFile exampleHost [(str ''Q1'', nineRows)]"
    unfolding parseExcelFile_def
    by (simp add: role ten nine tenRows_def [symmetric] nineRows_def [symmetric]
        split: list.splits)
       (simp add: tenRows_def nineRows_def)
  then show ?thesis
    by (simp add: ten nine)
qed

subsection \<open>Kind and amount of a transaction\<close>

lemma txRowT_keys:
  "findKey h [str ''date''] (txRowT n d a ty) = Some (str ''Date'')"
  "findKey h [str ''description'', str ''details'', str ''particulars'', str ''narration'']
     (txRowT n d a ty) = Some (str ''Description'')"
  "findKey h [str ''description'', str ''details'', str ''particulars'']
     (txRowT n d a ty) = Some (str ''Description'')"
  "findKey h [str ''category''] (txRowT n d a ty) = None"
  "findKey h [str ''amount'', str ''debit'', str ''credit''] (txRowT n d a ty) = Some (str ''Amount'')"
  "findKey h [str ''amount''] (txRowT n d a ty) = Some (str ''Amount'')"
  "findKey h [str ''type''] (txRowT n d a ty) = Some (str ''Type'')"
  "findKey h [str ''source'', str ''account''] (txRowT n d a ty) = None"
  "findKey h [str ''source''] (txRowT n d a ty) = None"
  by (simp_all add: txRowT_def txRow_def keyEval)

lemma txRowT_get:
  "get (txRowT n d a ty) (str ''Date'') = Num n"
  "get (txRowT n d a ty) (str ''Description'') = Str d"
  "get (txRowT n d a ty) (str ''Amount'') = Str a"
  "get (txRowT n d a ty) (str ''Type'') = ty"
  by (simp_all add: txRowT_def txRow_def get_def str_def)

lemma parseAmount_minus500: "parseAmount (Str (str ''-500'')) = Fin (- 500)"
  by (simp add: amountEval)

lemma geZero_Math_abs: "\<not> isNaN x \<Longrightarrow> geZero (Math_abs x)"
  by (cases x) (simp_all add: isNaN_def)

lemma transactionStep_PushE:
  assumes "transactionStep h row = Inr (Push t)"
  obtains dk sk ak dateStr where
    "findKey h [str ''date''] row = Some dk"
    "findKey h [str ''description'', str ''details'', str ''particulars'', str ''narration''] row =
       Some sk"
    "findKey h [str ''amount'', str ''debit'', str ''credit''] row = Some ak"
    "decodeDate h (get row dk) = Inr dateStr"
    "\<not> isNaN (parseAmount (get row ak))"
    "t = \<lparr> t_date = dateStr,
           t_description = toString (get row sk),
           t_category = (case findKey h [str ''category''] row of
                           Some ck \<Rightarrow> toString (get row ck)
                         | None \<Rightarrow> Text (str ''Uncategorized'')),
           t_amount = Math_abs (parseAmount (get row ak)),
           t_type = (case findKey h [str ''type''] row of
                       Some tk \<Rightarrow>
                         if truthy (get row tk) then toString (get row tk)
                         else if ltZero (parseAmount (get row ak)) then Text (str ''Expense'')
                         else Text (str ''Income'')
                     | None \<Rightarrow>
                         if ltZero (parseAmount (get row ak)) then Text (str ''Expense'')
                         else Text (str ''Income'')),
           t_source = (case findKey h [str ''source'', str ''account''] row of
                         Some k \<Rightarrow> Some (toString (get row k))
                       | None \<Rightarrow> None) \<rparr>"
proof (cases "findKey h [str ''date''] row")
  case None
  with assms show ?thesis by (simp add: transactionStep_def)
next
  case dk: (Some dk)
  show ?thesis
  proof (cases "findKey h [str ''description'', str ''details'', str ''particulars'',
                         str ''narration''] row")
    case None
    with assms dk show ?thesis by (simp add: transactionStep_def)
  next
    case sk: (Some sk)
    show ?thesis
    proof (cases "findKey h [str ''amount'', str ''debit'', str ''credit''] row")
      case None
      with assms dk sk show ?thesis by (simp add: transactionStep_def)
    next
      case ak: (Some ak)
      show ?thesis
      proof (cases "decodeDate h (get row dk)")
        case (Inl e)
        with assms dk sk ak show ?thesis by (simp add: transactionStep_def)
      next
        case (Inr dateStr)
        show ?thesis
        proof (cases "isNaN (parseAmount (get row ak))")
          case True
          with assms dk sk ak Inr show ?thesis by (simp add: transactionStep_def)
        next
          case False
          have "t = \<lparr> t_date = dateStr,
           t_description = toString (get row sk),
           t_category = (case findKey h [str ''category''] row of
                           Some ck \<Rightarrow> toString (get row ck)
                         | None \<Rightarrow> Text (str ''Uncategorized'')),
           t_amount = Math_abs (parseAmount (get row ak)),
           t_type = (case findKey h [str ''type''] row of
                       Some tk \<Rightarrow>
                         if truthy (get row tk) then toString (get row tk)
                         else if ltZero (parseAmount (get row ak)) then Text (str ''Expense'')
                         else Text (str ''Income'')
                     | None \<Rightarrow>
                         if ltZero (parseAmount (get row ak)) then Text (str ''Expense'')
                         else Text (str ''Income'')),
           t_source = (case findKey h [str ''source'', str ''account''] row of
                         Some k \<Rightarrow> Some (toString (get row k))
                       | None \<Rightarrow> None) \<rparr>"
            using assms dk sk ak Inr False by (simp add: transactionStep_def Let_def)
          then show ?thesis
            using that [OF dk sk ak Inr False] by simp
        qed
      qed
    qed
  qed
qed

lemma step_txRowT:
  "transactionStep exampleHost (txRowT 45000 (str ''Rent'') (str ''-500'') ty) =
     Inr (Push \<lparr> t_date = Str (str ''2023-03-15''), t_description = Text (str ''Rent''),
                 t_category = Text (str ''Uncategorized''), t_amount = Fin 500,
                 t_type = (if truthy ty then toString ty else Text (str ''Expense'')),
                 t_source = None \<rparr>)"
  unfolding transactionStep_def
  by (simp add: txRowT_keys txRowT_get decodeDate_45000 exampleHost_def serial1900_45000
      isNaN_def parseAmount_minus500)

text \<open>
  C2, as amended: for every row that gives a transaction, the amount is the absolute
  value of the decoded amount and is not negative; the kind is the text of the Type
  cell when a type header is found and its cell is truthy (a non-empty text, a number
  other than 0, or TRUE), and otherwise Expense for a negative decoded amount and Income
  for any other.
\<close>

theorem transaction_kind_and_amount:
  assumes "transactionStep h row = Inr (Push t)"
  shows "\<exists>ak. findKey h [str ''amount'', str ''debit'', str ''credit''] row = Some ak \<and>
           t_amount t = Math_abs (parseAmount (get row ak)) \<and>
           geZero (t_amount t) \<and>
           t_type t =
             (case findKey h [str ''type''] row of
                Some tk \<Rightarrow>
                  if truthy (get row tk) then toString (get row tk)
                  else if ltZero (parseAmount (get row ak)) then Text (str ''Expense'')
                  else Text (str ''Income'')
              | None \<Rightarrow>
                  if ltZero (parseAmount (get row ak)) then Text (str ''Expense'')
                  else Text (str ''Income''))"
proof -
  from assms obtain dk sk ak dateStr where
    ak: "findKey h [str ''amount'', str ''debit'', str ''credit''] row = Some ak"
    and nn: "\<not> isNaN (parseAmount (get row ak))"
    and amt: "t_amount t = Math_abs (parseAmount (get row ak))"
    and ty: "t_type t =
             (case findKey h [str ''type''] row of
                Some tk \<Rightarrow>
                  if truthy (get row tk) then toString (get row tk)
                  else if ltZero (parseAmount (get row ak)) then Text (str ''Expense'')
                  else Text (str ''Income'')
              | None \<Rightarrow>
                  if ltZero (parseAmount (get row ak)) then Text (str ''Expense'')
                  else Text (str ''Income''))"
    by (rule transactionStep_PushE) simp
  have "geZero (t_amount t)"
    unfolding amt by (rule geZero_Math_abs [OF nn])
  then show ?thesis
    using ak amt ty by blast
qed

text \<open>A row whose Type cell is the text ``expense'' keeps that text as its kind.\<close>

theorem transaction_kind_and_amount_witness:
  "transactionStep exampleHost typedRow = Inr (Push typedRecord) \<and>
   geZero (t_amount typedRecord) \<and>
   t_amount typedRecord = Math_abs (parseAmount (get typedRow (str ''Amount''))) \<and>
   t_type typedRecord = toString (get typedRow (str ''Type''))"
proof -
  have s: "transactionStep exampleHost typedRow = Inr (Push typedRecord)"
    unfolding typedRow_def typedRecord_def by (simp add: step_txRowT) (simp add: str_def)
  obtain ak where ak: "findKey exampleHost [str ''amount'', str ''debit'', str ''credit''] typedRow = Some ak"
    and amt: "t_amount typedRecord = Math_abs (parseAmount (get typedRow ak))"
    and ge: "geZero (t_amount typedRecord)"
    and ty: "t_type typedRecord =
             (case findKey exampleHost [str ''type''] typedRow of
                Some tk \<Rightarrow>
                  if truthy (get typedRow tk) then toString (get typedRow tk)
                  else if ltZero (parseAmount (get typedRow ak)) then Text (str ''Expense'')
                  else Text (str ''Income'')
              | None \<Rightarrow>
                  if ltZero (parseAmount (get typedRow ak)) then Text (str ''Expense'')
                  else Text (str ''Income''))"
    using transaction_kind_and_amount [OF s] by blast
  have "ak = str ''Amount''"
    using ak by (simp add: typedRow_def txRowT_keys)
  moreover have "t_type typedRecord = toString (get typedRow (str ''Type''))"
    using ty by (simp add: typedRow_def txRowT_keys txRowT_get) (simp add: str_def)
  ultimately show ?thesis
    using s amt ge by simp
qed

text \<open>
  C2 as stated fails: a Type cell that holds the number 0 is not empty, and the kind is
  inferred from the sign of the amount, not the text of the cell.
\<close>

theorem zero_type_cell_not_verbatim:
  "findKey exampleHost [str ''type''] zeroTypeRow = Some (str ''Type'') \<and>
   get zeroTypeRow (str ''Type'') = Num 0 \<and>
   transactionStep exampleHost zeroTypeRow =
     Inr (Push \<lparr> t_date = Str (str ''2023-03-15''), t_description = Text (str ''Rent''),
                 t_category = Text (str ''Uncategorized''), t_amount = Fin 500,
                 t_type = Text (str ''Expense''), t_source = None \<rparr>) \<and>
   toString (Num 0) \<noteq> Text (str ''Expense'')"
  unfolding zeroTypeRow_def
  by (simp add: txRowT_keys txRowT_get step_txRowT)

subsection \<open>Two sheets of one role\<close>

lemma emiRow_keys:
  "findKey h [str ''name'', str ''loan'', str ''emi''] (emiRow n a d) = Some (str ''Name'')"
  "findKey h [str ''amount'', str ''emi''] (emiRow n a d) = Some (str ''Amount'')"
  "findKey h [str ''due'', str ''date'', str ''end''] (emiRow n a d) = Some (str ''Due Date'')"
  "findKey h [str ''total''] (emiRow n a d) = None"
  "findKey h [str ''paid''] (emiRow n a d) = None"
  by (simp_all add: emiRow_def keyEval)

lemma emiRow_get:
  "get (emiRow n a d) (str ''Name'') = Str n"
  "get (emiRow n a d) (str ''Amount'') = Str a"
  "get (emiRow n a d) (str ''Due Date'') = Num d"
  by (simp_all add: emiRow_def get_def str_def)

lemma decodeDate_45001: "decodeDate exampleHost (Num 45001) = Inr (Str (str ''2023-03-16''))"
  by (simp add: decodeDate_def exampleHost_def serial1900_45001 showNat_date padStart2_def
      showNat_16)
     (simp add: str_def)

lemma decodeDate_example_45000:
  "decodeDate exampleHost (Num 45000) = Inr (Str (str ''2023-03-15''))"
  by (simp add: decodeDate_45000 exampleHost_def serial1900_45000)

lemma parseAmount_12000: "parseAmount (Str (str ''12000'')) = Fin 12000"
  by (simp add: amountEval)

lemma parseAmount_30000: "parseAmount (Str (str ''30000'')) = Fin 30000"
  by (simp add: amountEval)

lemma parse_carSheet:
  "parseEMISheet exampleHost [emiRow (str ''Car Loan'') (str ''12000'') 45000] = Inr [carRecord]"
  by (simp add: parseEMISheet_def emiStep_def emiRow_keys emiRow_get decodeDate_example_45000
      parseAmount_12000 isNaN_def carRecord_def)

lemma parse_homeSheet:
  "parseEMISheet exampleHost [emiRow (str ''Home Loan'') (str ''30000'') 45001] = Inr [homeRecord]"
  by (simp add: parseEMISheet_def emiStep_def emiRow_keys emiRow_get decodeDate_45001
      parseAmount_30000 isNaN_def homeRecord_def)

lemma sheetRole_emi_examples:
  "sheetRole h (str ''EMI 2024'') = Installments" "sheetRole h (str ''EMI 2025'') = Installments"
  by (simp_all add: sheetRole_def str_def toLowerCase_def isAscii_def lowerUnit_def)

text \<open>
  What the loop over the sheets does in general: it runs sheet after sheet, and a
  non-empty instalment sheet that is parsed replaces whatever instalments the sheets
  before it gave, where a transactions sheet appends to the transactions so far.
\<close>

lemma forEachSheet_append:
  "forEachSheet h (xs @ ys) result =
     (case forEachSheet h xs result of
        Inl e \<Rightarrow> Inl e
      | Inr result' \<Rightarrow> forEachSheet h ys result')"
proof (induction xs arbitrary: result)
  case Nil
  show ?case by simp
next
  case (Cons sheet xs)
  obtain sheetName jsonData where sheet: "sheet = (sheetName, jsonData)"
    by (cases sheet)
  show ?case
    unfolding sheet
    by (simp add: Cons.IH split: list.splits SheetRole.splits sum.splits)
qed

lemma later_emi_sheet_replaces:
  assumes "forEachSheet h workbook result = Inr result'"
    and "sheetRole h sheetName = Installments"
    and "parseEMISheet h (firstRow # rows) = Inr es"
  shows "forEachSheet h (workbook @ [(sheetName, firstRow # rows)]) result =
           Inr (result'\<lparr>emis := es\<rparr>)"
  using assms by (simp add: forEachSheet_append)

lemma later_transactions_sheet_appends:
  assumes "forEachSheet h workbook result = Inr result'"
    and "sheetRole h sheetName = Transactions"
    and "parseTransactionsSheet h (firstRow # rows) (Object_keys firstRow) = Inr ts"
  shows "forEachSheet h (workbook @ [(sheetName, firstRow # rows)]) result =
           Inr (result'\<lparr>transactions := transactions result' @ ts\<rparr>)"
  using assms by (simp add: forEachSheet_append)

text \<open>
  C3: each of the two instalment sheets gives one record, and the workbook with both
  sheets returns the record of the second sheet only: the instalment branch assigns to
  \<^verbatim>\<open>result.emis\<close> where the transactions branch pushes.
\<close>

theorem second_emi_sheet_replaces_first:
  "parseEMISheet exampleHost [emiRow (str ''Car Loan'') (str ''12000'') 45000] = Inr [carRecord] \<and>
   parseEMISheet exampleHost [emiRow (str ''Home Loan'') (str ''30000'') 45001] = Inr [homeRecord] \<and>
   parseExcelFile exampleHost twoLoanSheets =
     Inr \<lparr> transactions = [], emis = [homeRecord], savingsGoals = [] \<rparr>"
  by (simp add: parse_carSheet parse_homeSheet parseExcelFile_def twoLoanSheets_def
      sheetRole_emi_examples)

subsection \<open>A workbook without records\<close>

lemma forEachSheet_no_records:
  assumes "\<forall>sheet \<in> set workbook. sheetRecordCount h sheet = Inr 0"
  shows "forEachSheet h workbook \<lparr>transactions = [], emis = [], savingsGoals = []\<rparr> =
           Inr \<lparr>transactions = [], emis = [], savingsGoals = []\<rparr>"
  using assms
proof (induction workbook)
  case Nil
  show ?case by simp
next
  case (Cons sheet workbook)
  obtain sheetName jsonData where sheet: "sheet = (sheetName, jsonData)"
    by (cases sheet)
  have rest: "forEachSheet h workbook \<lparr>transactions = [], emis = [], savingsGoals = []\<rparr> =
           Inr \<lparr>transactions = [], emis = [], savingsGoals = []\<rparr>"
    using Cons by simp
  have zero: "sheetRecordCount h (sheetName, jsonData) = Inr 0"
    using Cons.prems sheet by simp
  show ?case
  proof (cases jsonData)
    case Nil
    then show ?thesis by (simp add: sheet rest)
  next
    case (Cons firstRow rows)
    have tx: "parseTransactionsSheet h jsonData cols = parseTransactionsSheet h jsonData []" for cols
      by (simp add: parseTransactionsSheet_def)
    show ?thesis
    proof (cases "sheetRole h sheetName")
      case Installments
      then have "parseEMISheet h jsonData = Inr []"
        using zero by (simp add: sheetRecordCount_def split: sum.splits)
      then show ?thesis
        using Installments Cons by (simp add: sheet rest)
    next
      case SavingsGoals
      then have "parseSavingsSheet h jsonData = Inr []"
        using zero by (simp add: sheetRecordCount_def split: sum.splits)
      then show ?thesis
        using SavingsGoals Cons by (simp add: sheet rest)
    next
      case Transactions
      then have "parseTransactionsSheet h jsonData [] = Inr []"
        using zero by (simp add: sheetRecordCount_def split: sum.splits)
      then have "parseTransactionsSheet h jsonData (Object_keys firstRow) = Inr []"
        using tx by simp
      then show ?thesis
        using Transactions Cons by (simp add: sheet rest)
    qed
  qed
qed

text \<open>
  C4: when every sheet of the workbook yields no record, parsing returns the three
  empty collections and the upload fails with \<open>NoValidData\<close>, the failure whose message
  is ``No valid data found in file. Please check the format.''; nothing is handed to the
  storage API.
\<close>

theorem no_records_is_a_failure:
  assumes "\<forall>sheet \<in> set workbook. sheetRecordCount h sheet = Inr 0"
  shows "parseExcelFile h workbook = Inr \<lparr>transactions = [], emis = [], savingsGoals = []\<rparr> \<and>
         handleFileUpload h workbook = Inl NoValidData"
  using forEachSheet_no_records [OF assms]
  by (simp add: handleFileUpload_def parseExcelFile_def)

text \<open>A workbook whose only sheet has one row, with the amount N/A.\<close>

theorem no_records_is_a_failure_witness:
  "sheetRecordCount exampleHost (str ''Q1'', [naRow]) = Inr 0 \<and>
   parseExcelFile exampleHost [(str ''Q1'', [naRow])] =
     Inr \<lparr>transactions = [], emis = [], savingsGoals = []\<rparr> \<and>
   handleFileUpload exampleHost [(str ''Q1'', [naRow])] = Inl NoValidData"
proof -
  have step_naRow: "transactionStep exampleHost naRow = Inr (Warn InvalidAmount)"
    unfolding naRow_def transactionStep_def
    by (simp add: txRow_keys txRow_get decodeDate_naRow parseAmount_na isNaN_def)
  have role: "sheetRole exampleHost (str ''Q1'') = Transactions"
    by (simp add: sheetRole_def str_def toLowerCase_def isAscii_def lowerUnit_def)
  have z: "sheetRecordCount exampleHost (str ''Q1'', [naRow]) = Inr 0"
    by (simp add: sheetRecordCount_def role parseTransactionsSheet_def step_naRow)
  show ?thesis
    using z no_records_is_a_failure [of "[(str ''Q1'', [naRow])]" exampleHost] by simp
qed

subsection \<open>The role of a sheet\<close>



text \<open>
  For a name of ASCII characters this is the usual reading: some contiguous part of the
  name is the token up to the case of its letters.
\<close>

lemma containsCI_ascii:
  assumes "isAscii name"
  shows "containsCI h name token \<longleftrightarrow>
           (\<exists>pre mid post. name = pre @ mid @ post \<and> map lowerUnit mid = token)"
proof
  assume "containsCI h name token"
  then obtain p q where eq: "map lowerUnit name = p @ token @ q"
    using assms by (auto simp: containsCI_def toLowerCase_def)
  define mid where "mid = take (length token) (drop (length p) name)"
  have "map lowerUnit mid = take (length token) (drop (length p) (map lowerUnit name))"
    unfolding mid_def by (simp add: take_map drop_map)
  then have low: "map lowerUnit mid = token"
    unfolding eq by simp
  have "drop (length p) name = mid @ drop (length token) (drop (length p) name)"
    unfolding mid_def by (rule append_take_drop_id [symmetric])
  then have "name = take (length p) name @ mid @ drop (length token) (drop (length p) name)"
    by (metis append_take_drop_id)
  then show "\<exists>pre mid post. name = pre @ mid @ post \<and> map lowerUnit mid = token"
    using low by blast
next
  assume "\<exists>pre mid post. name = pre @ mid @ post \<and> map lowerUnit mid = token"
  then obtain pre mid post where "name = pre @ mid @ post" "map lowerUnit mid = token"
    by blast
  then have "map lowerUnit name = map lowerUnit pre @ token @ map lowerUnit post"
    by auto
  then show "containsCI h name token"
    using assms unfolding containsCI_def toLowerCase_def by auto
qed



subsection \<open>The amounts of instalments and savings goals\<close>

lemma savingsRow_keys:
  "findKey h [str ''name'', str ''goal''] (savingsRow n t d) = Some (str ''Name'')"
  "findKey h [str ''target'', str ''goal''] (savingsRow n t d) = Some (str ''Target'')"
  "findKey h [str ''current'', str ''saved''] (savingsRow n t d) = None"
  "findKey h [str ''deadline'', str ''date'', str ''target date''] (savingsRow n t d) =
     Some (str ''Deadline'')"
  by (simp_all add: savingsRow_def keyEval)

lemma savingsRow_get:
  "get (savingsRow n t d) (str ''Name'') = Str n"
  "get (savingsRow n t d) (str ''Target'') = Str t"
  "get (savingsRow n t d) (str ''Deadline'') = Num d"
  by (simp_all add: savingsRow_def get_def str_def)

lemma step_carRow:
  "emiStep exampleHost (emiRow (str ''Car Loan'') (str ''12000'') 45000) = Inr (Push carRecord)"
  by (simp add: emiStep_def emiRow_keys emiRow_get decodeDate_example_45000
      parseAmount_12000 isNaN_def carRecord_def)

lemma step_tripRow:
  "savingsStep exampleHost (savingsRow (str ''Trip'') (str ''30000'') 45000) = Inr (Push tripRecord)"
  by (simp add: savingsStep_def savingsRow_keys savingsRow_get decodeDate_example_45000
      parseAmount_30000 isNaN_def tripRecord_def)

lemma emiStep_Push:
  assumes "emiStep h row = Inr (Push e)"
  shows "\<exists>ak. findKey h [str ''amount'', str ''emi''] row = Some ak \<and>
           e_amount e = parseAmount (get row ak) \<and> \<not> isNaN (parseAmount (get row ak))"
    and "e_totalAmount e =
           (case findKey h [str ''total''] row of
              Some k \<Rightarrow> Some (parseAmount (get row k))
            | None \<Rightarrow> None)"
    and "e_paid e =
           (case findKey h [str ''paid''] row of
              Some k \<Rightarrow> parseAmount (get row k)
            | None \<Rightarrow> Fin 0)"
proof -
  obtain nk where nk: "findKey h [str ''name'', str ''loan'', str ''emi''] row = Some nk"
    using assms by (cases "findKey h [str ''name'', str ''loan'', str ''emi''] row")
      (simp_all add: emiStep_def)
  obtain ak where ak: "findKey h [str ''amount'', str ''emi''] row = Some ak"
    using assms nk by (cases "findKey h [str ''amount'', str ''emi''] row")
      (simp_all add: emiStep_def)
  obtain dk where dk: "findKey h [str ''due'', str ''date'', str ''end''] row = Some dk"
    using assms nk ak by (cases "findKey h [str ''due'', str ''date'', str ''end''] row")
      (simp_all add: emiStep_def)
  obtain d where d: "decodeDate h (get row dk) = Inr d"
    using assms nk ak dk by (cases "decodeDate h (get row dk)") (simp_all add: emiStep_def)
  have nn: "\<not> isNaN (parseAmount (get row ak))"
    using assms nk ak dk d by (auto simp: emiStep_def Let_def split: if_splits)
  have e: "e = \<lparr> e_name = toString (get row nk), e_amount = parseAmount (get row ak),
                 e_dueDate = d,
                 e_totalAmount = (case findKey h [str ''total''] row of
                                    Some k \<Rightarrow> Some (parseAmount (get row k))
                                  | None \<Rightarrow> None),
                 e_paid = (case findKey h [str ''paid''] row of
                             Some k \<Rightarrow> parseAmount (get row k)
                           | None \<Rightarrow> Fin 0) \<rparr>"
    using assms nk ak dk d nn by (simp add: emiStep_def Let_def)
  show "\<exists>ak. findKey h [str ''amount'', str ''emi''] row = Some ak \<and>
           e_amount e = parseAmount (get row ak) \<and> \<not> isNaN (parseAmount (get row ak))"
    using ak nn e by simp
  show "e_totalAmount e =
           (case findKey h [str ''total''] row of
              Some k \<Rightarrow> Some (parseAmount (get row k))
            | None \<Rightarrow> None)"
    by (subst e) simp
  show "e_paid e =
           (case findKey h [str ''paid''] row of
              Some k \<Rightarrow> parseAmount (get row k)
            | None \<Rightarrow> Fin 0)"
    by (subst e) simp
qed

lemma savingsStep_Push:
  assumes "savingsStep h row = Inr (Push g)"
  obtains nk tk dk d where
    "findKey h [str ''name'', str ''goal''] row = Some nk"
    "findKey h [str ''target'', str ''goal''] row = Some tk"
    "findKey h [str ''deadline'', str ''date'', str ''target date''] row = Some dk"
    "decodeDate h (get row dk) = Inr d"
    "\<not> isNaN (parseAmount (get row tk))"
    "g = \<lparr> g_name = toString (get row nk), g_targetAmount = parseAmount (get row tk),
           g_currentAmount = (case findKey h [str ''current'', str ''saved''] row of
                                Some k \<Rightarrow> parseAmount (get row k)
                              | None \<Rightarrow> Fin 0),
           g_deadline = d \<rparr>"
proof -
  obtain nk where nk: "findKey h [str ''name'', str ''goal''] row = Some nk"
    using assms by (cases "findKey h [str ''name'', str ''goal''] row")
      (simp_all add: savingsStep_def)
  obtain tk where tk: "findKey h [str ''target'', str ''goal''] row = Some tk"
    using assms nk by (cases "findKey h [str ''target'', str ''goal''] row")
      (simp_all add: savingsStep_def)
  obtain dk where dk: "findKey h [str ''deadline'', str ''date'', str ''target date''] row = Some dk"
    using assms nk tk
    by (cases "findKey h [str ''deadline'', str ''date'', str ''target date''] row")
      (simp_all add: savingsStep_def)
  obtain d where d: "decodeDate h (get row dk) = Inr d"
    using assms nk tk dk by (cases "decodeDate h (get row dk)") (simp_all add: savingsStep_def)
  have nn: "\<not> isNaN (parseAmount (get row tk))"
    using assms nk tk dk d by (auto simp: savingsStep_def Let_def split: if_splits)
  have "g = \<lparr> g_name = toString (get row nk), g_targetAmount = parseAmount (get row tk),
           g_currentAmount = (case findKey h [str ''current'', str ''saved''] row of
                                Some k \<Rightarrow> parseAmount (get row k)
                              | None \<Rightarrow> Fin 0),
           g_deadline = d \<rparr>"
    using assms nk tk dk d nn by (simp add: savingsStep_def Let_def)
  then show ?thesis
    using that [OF nk tk dk d nn] by simp
qed

text \<open>
  C6, as amended: the recurring amount of every emitted instalment is the decoded amount
  cell and is not NaN; its total is absent when no ``total'' header is found and the
  decoded cell otherwise; its paid amount is 0 when no ``paid'' header is found and the
  decoded cell otherwise. The target of every emitted savings goal is the decoded target
  cell and is not NaN; its current amount is 0 when no ``current'' or ``saved'' header is
  found and the decoded cell otherwise. No sign is imposed on any of them.
\<close>

theorem emitted_amounts:
  "(emiStep h row = Inr (Push e) \<longrightarrow>
      (\<exists>ak. findKey h [str ''amount'', str ''emi''] row = Some ak \<and>
         e_amount e = parseAmount (get row ak) \<and> \<not> isNaN (e_amount e)) \<and>
      e_totalAmount e =
        (case findKey h [str ''total''] row of
           Some k \<Rightarrow> Some (parseAmount (get row k))
         | None \<Rightarrow> None) \<and>
      e_paid e =
        (case findKey h [str ''paid''] row of
           Some k \<Rightarrow> parseAmount (get row k)
         | None \<Rightarrow> Fin 0)) \<and>
   (savingsStep h row' = Inr (Push g) \<longrightarrow>
      (\<exists>tk. findKey h [str ''target'', str ''goal''] row' = Some tk \<and>
         g_targetAmount g = parseAmount (get row' tk) \<and> \<not> isNaN (g_targetAmount g)) \<and>
      g_currentAmount g =
        (case findKey h [str ''current'', str ''saved''] row' of
           Some k \<Rightarrow> parseAmount (get row' k)
         | None \<Rightarrow> Fin 0))"
proof (intro conjI impI)
  assume s: "emiStep h row = Inr (Push e)"
  show "\<exists>ak. findKey h [str ''amount'', str ''emi''] row = Some ak \<and>
         e_amount e = parseAmount (get row ak) \<and> \<not> isNaN (e_amount e)"
    using emiStep_Push(1) [OF s] by auto
  show "e_totalAmount e =
        (case findKey h [str ''total''] row of
           Some k \<Rightarrow> Some (parseAmount (get row k))
         | None \<Rightarrow> None)"
    by (rule emiStep_Push(2) [OF s])
  show "e_paid e =
        (case findKey h [str ''paid''] row of
           Some k \<Rightarrow> parseAmount (get row k)
         | None \<Rightarrow> Fin 0)"
    by (rule emiStep_Push(3) [OF s])
next
  assume s: "savingsStep h row' = Inr (Push g)"
  from s obtain nk tk dk d where
    tk: "findKey h [str ''target'', str ''goal''] row' = Some tk"
    and nn: "\<not> isNaN (parseAmount (get row' tk))"
    and g: "g = \<lparr> g_name = toString (get row' nk), g_targetAmount = parseAmount (get row' tk),
           g_currentAmount = (case findKey h [str ''current'', str ''saved''] row' of
                                Some k \<Rightarrow> parseAmount (get row' k)
                              | None \<Rightarrow> Fin 0),
           g_deadline = d \<rparr>"
    by (rule savingsStep_Push)
  show "\<exists>tk. findKey h [str ''target'', str ''goal''] row' = Some tk \<and>
         g_targetAmount g = parseAmount (get row' tk) \<and> \<not> isNaN (g_targetAmount g)"
    using tk nn by (simp add: g)
  show "g_currentAmount g =
        (case findKey h [str ''current'', str ''saved''] row' of
           Some k \<Rightarrow> parseAmount (get row' k)
         | None \<Rightarrow> Fin 0)"
    by (subst g) simp
qed

text \<open>An instalment row and a savings row without the optional columns.\<close>

theorem emitted_amounts_witness:
  "emiStep exampleHost (emiRow (str ''Car Loan'') (str ''12000'') 45000) = Inr (Push carRecord) \<and>
   \<not> isNaN (e_amount carRecord) \<and> e_totalAmount carRecord = None \<and> e_paid carRecord = Fin 0 \<and>
   savingsStep exampleHost (savingsRow (str ''Trip'') (str ''30000'') 45000) =
     Inr (Push tripRecord) \<and>
   \<not> isNaN (g_targetAmount tripRecord) \<and> g_currentAmount tripRecord = Fin 0"
  using emitted_amounts [of exampleHost "emiRow (str ''Car Loan'') (str ''12000'') 45000"
      carRecord "savingsRow (str ''Trip'') (str ''30000'') 45000" tripRecord]
  by (auto simp add: step_carRow step_tripRow emiRow_keys savingsRow_keys)

text \<open>
  C6 as stated fails: an instalment row with the amount -500 and no ``total'' column is
  emitted with the recurring amount -500 and without a total.
\<close>

theorem negative_emi_amount_kept:
  "findKey exampleHost [str ''total''] (emiRow (str ''Car Loan'') (str ''-500'') 45000) = None \<and>
   parseEMISheet exampleHost [emiRow (str ''Car Loan'') (str ''-500'') 45000] =
     Inr [\<lparr> e_name = Text (str ''Car Loan''), e_amount = Fin (- 500),
            e_dueDate = Str (str ''2023-03-15''), e_totalAmount = None, e_paid = Fin 0 \<rparr>] \<and>
   \<not> geZero (Fin (- 500)) \<and>
   (None :: number option) \<noteq> Some (Fin 0)"
  by (simp add: parseEMISheet_def emiStep_def emiRow_keys emiRow_get decodeDate_example_45000
      parseAmount_minus500 isNaN_def)

subsection \<open>The header of the amount\<close>

lemma findKey_amount_eq:
  "findKey h [str ''amount'', str ''debit'', str ''credit''] row = find (isAmountHeader h) (map fst row)"
proof -
  have "(\<lambda>key. list_ex (\<lambda>t. includes_str (toLowerCase h key) t)
                  [str ''amount'', str ''debit'', str ''credit'']) = isAmountHeader h"
    by (rule ext) (simp add: isAmountHeader_def)
  then show ?thesis
    by (simp add: findKey_def Object_keys_def)
qed

text \<open>
  C8, as amended: the amount of a transactions row is read from the first header, in
  column order, that contains any of ``amount'', ``debit'' and ``credit''; the three
  tokens have no priority among them. No header is bound when none contains a token,
  and a row that gives a transaction has its amount from the bound header.
\<close>

theorem amount_header_is_first_match:
  "(findKey h [str ''amount'', str ''debit'', str ''credit''] row = Some k \<longleftrightarrow>
      (\<exists>i < length row. fst (row ! i) = k \<and> isAmountHeader h k \<and>
         (\<forall>j < i. \<not> isAmountHeader h (fst (row ! j))))) \<and>
   (findKey h [str ''amount'', str ''debit'', str ''credit''] row = None \<longleftrightarrow>
      (\<forall>i < length row. \<not> isAmountHeader h (fst (row ! i)))) \<and>
   (transactionStep h row = Inr (Push t) \<longrightarrow>
      (\<exists>ak. findKey h [str ''amount'', str ''debit'', str ''credit''] row = Some ak \<and>
         t_amount t = Math_abs (parseAmount (get row ak))))"
proof (intro conjI impI)
  show "findKey h [str ''amount'', str ''debit'', str ''credit''] row = Some k \<longleftrightarrow>
      (\<exists>i < length row. fst (row ! i) = k \<and> isAmountHeader h k \<and>
         (\<forall>j < i. \<not> isAmountHeader h (fst (row ! j))))"
    unfolding findKey_amount_eq find_Some_iff by auto
  show "findKey h [str ''amount'', str ''debit'', str ''credit''] row = None \<longleftrightarrow>
      (\<forall>i < length row. \<not> isAmountHeader h (fst (row ! i)))"
  proof -
    have "(\<forall>x \<in> set (map fst row). \<not> isAmountHeader h x) =
            (\<forall>i < length (map fst row). \<not> isAmountHeader h (map fst row ! i))"
      by (rule all_set_conv_all_nth)
    then have "(\<forall>x \<in> set (map fst row). \<not> isAmountHeader h x) =
            (\<forall>i < length row. \<not> isAmountHeader h (fst (row ! i)))"
      by simp
    then show ?thesis
      unfolding findKey_amount_eq find_None_iff by blast
  qed
next
  assume "transactionStep h row = Inr (Push t)"
  then obtain dk sk ak dateStr where
    "findKey h [str ''amount'', str ''debit'', str ''credit''] row = Some ak"
    "t_amount t = Math_abs (parseAmount (get row ak))"
    by (rule transactionStep_PushE) simp
  then show "\<exists>ak. findKey h [str ''amount'', str ''debit'', str ''credit''] row = Some ak \<and>
         t_amount t = Math_abs (parseAmount (get row ak))"
    by blast
qed

lemma headers_creditFirstRow:
  "isAmountHeader h (str ''Credit'')" "\<not> isAmountHeader h (str ''Date'')"
  "\<not> isAmountHeader h (str ''Description'')"
  by (simp_all add: isAmountHeader_def str_def toLowerCase_def isAscii_def lowerUnit_def)

text \<open>In the row Date, Description, Credit, Amount the header at index 2 is bound.\<close>

theorem amount_header_is_first_match_witness:
  "findKey exampleHost [str ''amount'', str ''debit'', str ''credit''] creditFirstRow = Some (str ''Credit'') \<and>
   fst (creditFirstRow ! 2) = str ''Credit'' \<and> isAmountHeader exampleHost (str ''Credit'') \<and>
   \<not> isAmountHeader exampleHost (fst (creditFirstRow ! 0)) \<and> \<not> isAmountHeader exampleHost (fst (creditFirstRow ! 1))"
proof -
  have r: "fst (creditFirstRow ! 2) = str ''Credit''" "fst (creditFirstRow ! 0) = str ''Date''"
    "fst (creditFirstRow ! 1) = str ''Description''" "length creditFirstRow = 4"
    by (simp_all add: creditFirstRow_def)
  have "\<forall>j < 2. \<not> isAmountHeader exampleHost (fst (creditFirstRow ! j))"
  proof (intro allI impI)
    fix j :: nat
    assume "j < 2"
    then have "j = 0 \<or> j = 1" by auto
    then show "\<not> isAmountHeader exampleHost (fst (creditFirstRow ! j))"
      using r headers_creditFirstRow by auto
  qed
  then have "\<exists>i < length creditFirstRow. fst (creditFirstRow ! i) = str ''Credit'' \<and>
      isAmountHeader exampleHost (str ''Credit'') \<and> (\<forall>j < i. \<not> isAmountHeader exampleHost (fst (creditFirstRow ! j)))"
    using r headers_creditFirstRow(1) by (intro exI [of _ 2]) simp
  then have "findKey exampleHost [str ''amount'', str ''debit'', str ''credit''] creditFirstRow =
      Some (str ''Credit'')"
    using amount_header_is_first_match
        [where h = exampleHost and row = creditFirstRow and k = "str ''Credit''"] by blast
  then show ?thesis
    using r headers_creditFirstRow by simp
qed

text \<open>
  C8 as stated fails: with the headers Credit and Amount in that column order the
  amount is bound to Credit, not to Amount, and the transaction of the row Date,
  Description, Credit, Amount has the amount of the Credit cell.
\<close>

theorem credit_before_amount_binds_credit:
  "findKey exampleHost [str ''amount'', str ''debit'', str ''credit''] creditAmountRow = Some (str ''Credit'') \<and>
   str ''Credit'' \<noteq> str ''Amount'' \<and>
   transactionStep exampleHost creditFirstRow =
     Inr (Push \<lparr> t_date = Str (str ''2023-03-15''), t_description = Text (str ''Rent''),
                 t_category = Text (str ''Uncategorized''), t_amount = Fin 200,
                 t_type = Text (str ''Income''), t_source = None \<rparr>)"
proof -
  have k: "findKey exampleHost [str ''date''] creditFirstRow = Some (str ''Date'')"
    "findKey exampleHost [str ''description'', str ''details'', str ''particulars'', str ''narration'']
       creditFirstRow = Some (str ''Description'')"
    "findKey exampleHost [str ''category''] creditFirstRow = None"
    "findKey exampleHost [str ''amount'', str ''debit'', str ''credit''] creditFirstRow = Some (str ''Credit'')"
    "findKey exampleHost [str ''type''] creditFirstRow = None"
    "findKey exampleHost [str ''source'', str ''account''] creditFirstRow = None"
    by (simp_all add: creditFirstRow_def keyEval)
  have g: "get creditFirstRow (str ''Date'') = Num 45000"
    "get creditFirstRow (str ''Description'') = Str (str ''Rent'')"
    "get creditFirstRow (str ''Credit'') = Str (str ''200'')"
    by (simp_all add: creditFirstRow_def get_def str_def)
  have a: "parseAmount (Str (str ''200'')) = Fin 200"
    by (simp add: amountEval)
  have "transactionStep exampleHost creditFirstRow =
     Inr (Push \<lparr> t_date = Str (str ''2023-03-15''), t_description = Text (str ''Rent''),
                 t_category = Text (str ''Uncategorized''), t_amount = Fin 200,
                 t_type = Text (str ''Income''), t_source = None \<rparr>)"
    unfolding transactionStep_def
    by (simp add: k g a decodeDate_example_45000 isNaN_def)
  moreover have "findKey exampleHost [str ''amount'', str ''debit'', str ''credit''] creditAmountRow =
      Some (str ''Credit'')"
    by (simp add: creditAmountRow_def keyEval)
  moreover have "str ''Credit'' \<noteq> str ''Amount''"
    by (simp add: str_def)
  ultimately show ?thesis
    by simp
qed

subsection \<open>One header for the name and the target of a savings goal\<close>

lemma goalRow_keys:
  "findKey h [str ''name'', str ''goal''] (goalRow c) = Some (str ''Goal'')"
  "findKey h [str ''target'', str ''goal''] (goalRow c) = Some (str ''Goal'')"
  "findKey h [str ''current'', str ''saved''] (goalRow c) = None"
  "findKey h [str ''deadline'', str ''date'', str ''target date''] (goalRow c) =
     Some (str ''Deadline'')"
  by (simp_all add: goalRow_def keyEval)

lemma goalRow_get:
  "get (goalRow c) (str ''Goal'') = Str c"
  "get (goalRow c) (str ''Deadline'') = Num 45000"
  by (simp_all add: goalRow_def get_def str_def)

lemma parseAmount_5000: "parseAmount (Str (str ''5000'')) = Fin 5000"
  by (simp add: amountEval)

lemma parseAmount_vacation: "parseAmount (Str (str ''Vacation'')) = NaN"
  by (simp add: amountEval)

text \<open>
  C9, as amended: when one header is bound to both the name and the target of a savings
  row, the row is skipped if no deadline header is found or if the cell of that header
  does not decode to a number; if the cell decodes, the row is emitted, with the text
  of the cell as its name and the number as its target. (A numeric deadline that the
  library does not decode throws, as for every row.)
\<close>

theorem shared_goal_header:
  assumes "findKey h [str ''name'', str ''goal''] row = Some k"
    and "findKey h [str ''target'', str ''goal''] row = Some k"
  shows "savingsStep h row =
           (case findKey h [str ''deadline'', str ''date'', str ''target date''] row of
              None \<Rightarrow> Inr Continue
            | Some dk \<Rightarrow>
                (case decodeDate h (get row dk) of
                   Inl e \<Rightarrow> Inl e
                 | Inr d \<Rightarrow>
                     if isNaN (parseAmount (get row k)) then Inr Continue
                     else Inr (Push \<lparr>
                            g_name = toString (get row k),
                            g_targetAmount = parseAmount (get row k),
                            g_currentAmount =
                              (case findKey h [str ''current'', str ''saved''] row of
                                 Some ck \<Rightarrow> parseAmount (get row ck)
                               | None \<Rightarrow> Fin 0),
                            g_deadline = d \<rparr>)))"
  using assms
  by (simp add: savingsStep_def Let_def split: option.splits sum.splits)

text \<open>
  A single Goal column: the cell ``Vacation'' is skipped, the cell ``5000'' is emitted.
\<close>

theorem shared_goal_header_witness:
  "findKey exampleHost [str ''name'', str ''goal''] (goalRow (str ''Vacation'')) = Some (str ''Goal'') \<and>
   findKey exampleHost [str ''target'', str ''goal''] (goalRow (str ''Vacation'')) = Some (str ''Goal'') \<and>
   savingsStep exampleHost (goalRow (str ''Vacation'')) = Inr Continue \<and>
   savingsStep exampleHost (goalRow (str ''5000'')) =
     Inr (Push \<lparr> g_name = Text (str ''5000''), g_targetAmount = Fin 5000,
                 g_currentAmount = Fin 0, g_deadline = Str (str ''2023-03-15'') \<rparr>)"
  using shared_goal_header
      [where h = exampleHost and row = "goalRow (str ''Vacation'')" and k = "str ''Goal''"]
    shared_goal_header
      [where h = exampleHost and row = "goalRow (str ''5000'')" and k = "str ''Goal''"]
  by (simp add: goalRow_keys goalRow_get decodeDate_example_45000 parseAmount_5000
      parseAmount_vacation isNaN_def)

text \<open>
  C9 as stated fails: the row with the single column Goal, holding 5000, and a Deadline
  is not skipped; the savings parser returns one record for it.
\<close>

theorem single_goal_column_emitted:
  "findKey exampleHost [str ''name'', str ''goal''] (goalRow (str ''5000'')) = Some (str ''Goal'') \<and>
   findKey exampleHost [str ''target'', str ''goal''] (goalRow (str ''5000'')) = Some (str ''Goal'') \<and>
   parseSavingsSheet exampleHost [goalRow (str ''5000'')] =
     Inr [\<lparr> g_name = Text (str ''5000''), g_targetAmount = Fin 5000,
            g_currentAmount = Fin 0, g_deadline = Str (str ''2023-03-15'') \<rparr>]"
  by (simp add: parseSavingsSheet_def savingsStep_def goalRow_keys goalRow_get
      decodeDate_example_45000 parseAmount_5000 isNaN_def)

subsection \<open>The example of the specification\<close>

text \<open>
  C7: the transactions normaliser maps the row with Date 45000, Description ``Rent'' and
  Amount ``rupee sign, space, 15,000'', without a Type column, to the record with date
  2023-03-15, description Rent, category Uncategorized, amount 15000 and kind Income.
  The year, month and day of serial 45000 come from the spreadsheet library, a
  parameter here; the code formats them with two-digit month and day.
\<close>

theorem rent_row_example:
  assumes "parse_date_code h 45000 = Some (2023, 3, 15)"
  shows "parseTransactionsSheet h [rentRow] availableColumns =
           Inr [\<lparr> t_date = Str (str ''2023-03-15''),
                  t_description = Text (str ''Rent''),
                  t_category = Text (str ''Uncategorized''),
                  t_amount = Fin 15000,
                  t_type = Text (str ''Income''),
                  t_source = None \<rparr>]"
proof -
  have "transactionStep h rentRow =
          Inr (Push \<lparr> t_date = Str (str ''2023-03-15''),
                  t_description = Text (str ''Rent''),
                  t_category = Text (str ''Uncategorized''),
                  t_amount = Fin 15000,
                  t_type = Text (str ''Income''),
                  t_source = None \<rparr>)"
    unfolding rentRow_def transactionStep_def
    by (simp add: txRow_keys txRow_get decodeDate_45000 [OF assms] isNaN_def
        parseAmount_rent [unfolded rentRow_def])
  then show ?thesis
    by (simp add: parseTransactionsSheet_def)
qed

text \<open>The example host decodes serial 45000 to 15 March 2023.\<close>

theorem rent_row_example_witness:
  "parse_date_code exampleHost 45000 = Some (2023, 3, 15) \<and>
   parseTransactionsSheet exampleHost [rentRow] (Object_keys rentRow) =
     Inr [\<lparr> t_date = Str (str ''2023-03-15''),
            t_description = Text (str ''Rent''),
            t_category = Text (str ''Uncategorized''),
            t_amount = Fin 15000,
            t_type = Text (str ''Income''),
            t_source = None \<rparr>]"
proof -
  have h: "parse_date_code exampleHost 45000 = Some (2023, 3, 15)"
    by (simp add: exampleHost_def serial1900_45000)
  show ?thesis
    using h rent_row_example [OF h, of "Object_keys rentRow"] by simp
qed

subsection \<open>The upload page and the upload modal\<close>

lemma forRows_records_cong:
  assumes "\<And>row. row \<in> set rows \<Longrightarrow> pushed (f row) = pushed (g row)"
  shows "records (forRows f rows i (out, c1)) = records (forRows g rows j (out, c2))"
  using assms
proof (induction rows arbitrary: i j out c1 c2)
  case Nil
  show ?case by (simp add: records_def)
next
  case (Cons row rows)
  have IH: "records (forRows f rows i' (out', c1')) = records (forRows g rows j' (out', c2'))"
    for i' j' out' c1' c2'
    using Cons by simp
  have p: "pushed (f row) = pushed (g row)"
    using Cons.prems by simp
  show ?case
  proof (cases "f row")
    case (Inl e)
    then have "g row = Inl e"
      using p by (auto simp: pushed_def split: sum.splits step.splits)
    then show ?thesis using Inl by (simp add: records_def)
  next
    case (Inr s)
    then obtain s' where g: "g row = Inr s'"
      using p by (cases "g row") (auto simp: pushed_def split: step.splits)
    show ?thesis
    proof (cases s)
      case (Push r)
      then have "s' = Push r"
        using p Inr g by (cases s') (simp_all add: pushed_def)
      then show ?thesis
        using Inr g Push by (simp add: IH)
    next
      case Continue
      then have "s' = Continue \<or> (\<exists>w. s' = Warn w)"
        using p Inr g by (cases s') (simp_all add: pushed_def)
      then show ?thesis
        using Inr g Continue by (auto simp: IH)
    next
      case (Warn w)
      then have "s' = Continue \<or> (\<exists>w. s' = Warn w)"
        using p Inr g by (cases s') (simp_all add: pushed_def)
      then show ?thesis
        using Inr g Warn by (auto simp: IH)
    qed
  qed
qed

lemma findKey_fewer_tokens:
  assumes "list_all (\<lambda>key. \<not> list_ex (\<lambda>t. includes_str (toLowerCase h key) t) extra)
             (Object_keys row)"
    and "set longer \<subseteq> set tokens \<union> set extra" and "set tokens \<subseteq> set longer"
  shows "findKey h longer row = findKey h tokens row"
  unfolding findKey_def
proof (rule find_cong [OF refl])
  fix key
  assume "key \<in> set (Object_keys row)"
  then have "\<not> list_ex (\<lambda>t. includes_str (toLowerCase h key) t) extra"
    using assms(1) by (simp add: list_all_iff)
  then show "list_ex (\<lambda>t. includes_str (toLowerCase h key) t) longer =
             list_ex (\<lambda>t. includes_str (toLowerCase h key) t) tokens"
    using assms(2,3) unfolding list_ex_iff by blast
qed

lemma sameReading_keys:
  assumes "sameReading h row"
  shows "findKey h [str ''description'', str ''details'', str ''particulars'', str ''narration'']
           row = findKey h [str ''description'', str ''details'', str ''particulars''] row"
    and "findKey h [str ''amount'', str ''debit'', str ''credit''] row = findKey h [str ''amount''] row"
    and "findKey h [str ''source'', str ''account''] row = findKey h [str ''source''] row"
    and "\<exists>tk. findKey h [str ''type''] row = Some tk \<and> truthy (get row tk)"
proof -
  have e: "list_all (\<lambda>key. \<not> list_ex (\<lambda>t. includes_str (toLowerCase h key) t)
                        [str ''narration'', str ''debit'', str ''credit'', str ''account''])
             (Object_keys row)"
    using assms by (simp add: sameReading_def)
  show "findKey h [str ''description'', str ''details'', str ''particulars'', str ''narration'']
           row = findKey h [str ''description'', str ''details'', str ''particulars''] row"
    by (rule findKey_fewer_tokens [OF e]) auto
  show "findKey h [str ''amount'', str ''debit'', str ''credit''] row = findKey h [str ''amount''] row"
    by (rule findKey_fewer_tokens [OF e]) auto
  show "findKey h [str ''source'', str ''account''] row = findKey h [str ''source''] row"
    by (rule findKey_fewer_tokens [OF e]) auto
  show "\<exists>tk. findKey h [str ''type''] row = Some tk \<and> truthy (get row tk)"
    using assms by (simp add: sameReading_def split: option.splits)
qed

lemma sameReading_step:
  assumes "sameReading h row"
  shows "pushed (pageStep h row) = pushed (transactionStep h row)"
proof -
  note k = sameReading_keys(1-3) [OF assms]
  obtain tk where tk: "findKey h [str ''type''] row = Some tk" "truthy (get row tk)"
    using sameReading_keys(4) [OF assms] by blast
  show ?thesis
    unfolding pageStep_def transactionStep_def k
    by (simp add: tk pushed_def Let_def split: option.splits sum.splits)
qed

text \<open>
  C10, as amended: on a sheet all of whose rows have a truthy Type cell and no header
  containing ``narration'', ``debit'', ``credit'' or ``account'', the loop of the upload
  page and the transactions normaliser of the modal collect the same transactions (or
  throw alike); the page then rejects a sheet without rows and an empty collection,
  which the modal returns.
\<close>

theorem page_and_modal_agree:
  assumes "list_all (sameReading h) jsonData"
  shows "pageTransactions h jsonData = parseTransactionsSheet h jsonData availableColumns \<and>
         page_parseExcelFile h jsonData =
           (if length jsonData = 0 then Inl ExcelFileEmpty
            else (case parseTransactionsSheet h jsonData availableColumns of
                    Inl e \<Rightarrow> Inl (FailedToParse e)
                  | Inr ts \<Rightarrow> if length ts = 0 then Inl NoValidTransactions else Inr ts))"
proof -
  have "records (forRows (pageStep h) jsonData 0 ([], [])) =
        records (forRows (transactionStep h) jsonData 0 ([], []))"
  proof (rule forRows_records_cong)
    fix row
    assume "row \<in> set jsonData"
    then have "sameReading h row"
      using assms by (simp add: list_all_iff)
    then show "pushed (pageStep h row) = pushed (transactionStep h row)"
      by (rule sameReading_step)
  qed
  then have eq: "pageTransactions h jsonData = parseTransactionsSheet h jsonData availableColumns"
    by (simp add: pageTransactions_def parseTransactionsSheet_def records_def)
  show ?thesis
    unfolding page_parseExcelFile_def eq by simp
qed

text \<open>A sheet with the one row Date, Description, Amount, Type.\<close>

theorem page_and_modal_agree_witness:
  "list_all (sameReading exampleHost) [typedRow] \<and>
   pageTransactions exampleHost [typedRow] = Inr [typedRecord] \<and>
   parseTransactionsSheet exampleHost [typedRow] (Object_keys typedRow) = Inr [typedRecord] \<and>
   page_parseExcelFile exampleHost [typedRow] = Inr [typedRecord]"
proof -
  have s: "list_all (sameReading exampleHost) [typedRow]"
    by (simp add: sameReading_def typedRow_def txRowT_keys txRowT_get)
       (simp add: txRowT_def txRow_def Object_keys_def str_def toLowerCase_def isAscii_def lowerUnit_def)
  have m: "parseTransactionsSheet exampleHost [typedRow] (Object_keys typedRow) = Inr [typedRecord]"
    unfolding typedRow_def typedRecord_def
    by (simp add: parseTransactionsSheet_def step_txRowT) (simp add: str_def)
  show ?thesis
    using s m page_and_modal_agree [OF s, where availableColumns = "Object_keys typedRow"]
    by simp
qed

text \<open>
  C10 as stated fails: for the sheet with the one row Date 45000, Description Rent,
  Amount ``rupee sign, space, 15,000'' and no Type column, the modal returns one
  transaction while the loop of the page collects none and the page rejects the file.
\<close>

theorem page_requires_type_column:
  "parseTransactionsSheet exampleHost [rentRow] (Object_keys rentRow) = Inr [rentRecord] \<and>
   pageTransactions exampleHost [rentRow] = Inr [] \<and>
   page_parseExcelFile exampleHost [rentRow] = Inl NoValidTransactions"
proof -
  have "pageStep exampleHost rentRow = Inr (Warn MissingRequiredFields)"
    unfolding rentRow_def pageStep_def
    by (simp add: txRow_keys)
       (simp add: txRow_def keyEval)
  then have "pageTransactions exampleHost [rentRow] = Inr []"
    by (simp add: pageTransactions_def)
  then show ?thesis
    by (simp add: page_parseExcelFile_def parseTransactionsSheet_def step_rentRow)
qed

end
